theory Spec2Isabelle
  imports Main "HOL-Library.AList" "HOL-Library.Char_ord" "HOL-Library.List_Lexorder"
begin

section \<open>Data model of multipleformwizard/forms.py\<close>

text \<open>
  The module extends the form wizard of its host framework so that one step may hold
  several forms. Everything the module itself does is embedded below, function by
  function. What it inherits or imports from the host framework (form classes and their
  validation, the storage backend, the steps helper, URL reversing, the overridable hooks)
  appears as data or as a field of the record \<open>wizard\<close>, so that every theorem holds for any
  behaviour of those collaborators unless a theorem fixes them.
\<close>

datatype error =
    AssertionError
  | NoFileStorageConfigured
  | ValidationError
  | AttributeError
  | KeyError
  | ValueError
  | TypeError
  | UnboundLocalError
  | CallbackError string

text \<open>A dynamically typed value as far as the module looks into it: \<open>None\<close>, a dict, or an
  opaque object (a model instance, a queryset, a callable).\<close>

datatype pyval = PNone | PObj string | PDict "(string \<times> pyval) list"

fun truthy :: "pyval \<Rightarrow> bool" where
  "truthy PNone = False"
| "truthy (PDict d) = (d \<noteq> [])"
| "truthy (PObj x) = True"

text \<open>\<open>a or b\<close>\<close>

definition py_or :: "pyval \<Rightarrow> pyval \<Rightarrow> pyval" where
  "py_or a b = (if truthy a then a else b)"

datatype form_field = FileField | OtherField

text \<open>
  A form class, by the base class of the framework it derives from. The module only ever
  asks \<open>issubclass\<close> against \<open>forms.Form\<close>, \<open>forms.ModelForm\<close>, \<open>formsets.BaseFormSet\<close>,
  \<open>BaseModelFormSet\<close> and \<open>BaseInlineFormSet\<close>, and reads the attributes \<open>base_fields\<close> (of
  forms) and \<open>form\<close> (the item form of a formset). In the framework \<open>ModelForm\<close> derives from
  \<open>BaseForm\<close>, not from \<open>Form\<close>, and \<open>BaseInlineFormSet\<close> derives from \<open>BaseModelFormSet\<close>,
  which derives from \<open>BaseFormSet\<close>.
\<close>

datatype form_class =
    Form string "(string \<times> form_field) list"
  | ModelForm string "(string \<times> form_field) list"
  | FormSet string form_class
  | ModelFormSet string form_class
  | InlineFormSet string form_class
  | OtherClass string

fun issubclass_Form :: "form_class \<Rightarrow> bool" where
  "issubclass_Form (Form n fs) = True"
| "issubclass_Form c = False"

fun issubclass_BaseFormSet :: "form_class \<Rightarrow> bool" where
  "issubclass_BaseFormSet (FormSet n c) = True"
| "issubclass_BaseFormSet (ModelFormSet n c) = True"
| "issubclass_BaseFormSet (InlineFormSet n c) = True"
| "issubclass_BaseFormSet c = False"

fun issubclass_ModelForm_or_InlineFormSet :: "form_class \<Rightarrow> bool" where
  "issubclass_ModelForm_or_InlineFormSet (ModelForm n fs) = True"
| "issubclass_ModelForm_or_InlineFormSet (InlineFormSet n c) = True"
| "issubclass_ModelForm_or_InlineFormSet c = False"

fun issubclass_BaseModelFormSet :: "form_class \<Rightarrow> bool" where
  "issubclass_BaseModelFormSet (ModelFormSet n c) = True"
| "issubclass_BaseModelFormSet (InlineFormSet n c) = True"
| "issubclass_BaseModelFormSet c = False"

text \<open>\<open>form.base_fields\<close>: only form classes carry the attribute.\<close>

fun base_fields :: "form_class \<Rightarrow> error + (string \<times> form_field) list" where
  "base_fields (Form n fs) = Inr fs"
| "base_fields (ModelForm n fs) = Inr fs"
| "base_fields c = Inl AttributeError"

text \<open>\<open>form.form\<close> of a formset class.\<close>

fun item_form :: "form_class \<Rightarrow> error + form_class" where
  "item_form (FormSet n c) = Inr c"
| "item_form (ModelFormSet n c) = Inr c"
| "item_form (InlineFormSet n c) = Inr c"
| "item_form c = Inl AttributeError"

text \<open>A step descriptor: one class, or a dict from form name (tag) to class, in the dict's
  iteration order.\<close>

datatype form_struct = Cls form_class | Group "(string \<times> form_class) list"

text \<open>An entry of the declared \<open>form_list\<close>: a bare element, or a pair \<open>(step_name, form)\<close>.\<close>

datatype entry = Bare form_struct | Named string form_struct

section \<open>\<open>MultipleFormWizardView.get_initkwargs\<close>\<close>

text \<open>\<open>six.text_type(i)\<close> for the counter of \<open>enumerate\<close>: the decimal numeral.\<close>

fun text_type_nat :: "nat \<Rightarrow> string" where
  "text_type_nat n =
     (if n < 10 then [''0123456789'' ! n]
      else text_type_nat (n div 10) @ [''0123456789'' ! (n mod 10)])"

text \<open>Lines 60-74, one iteration. \<open>computed_form_list[k] = v\<close> on an \<open>OrderedDict\<close> keeps the
  place of a key that is already there, as \<open>AList.update\<close> does. A pair whose second
  component is neither a dict nor a subclass of \<open>forms.Form\<close> falls through both branches.\<close>

fun add_entry :: "nat \<Rightarrow> entry \<Rightarrow> (string \<times> form_struct) list \<Rightarrow> (string \<times> form_struct) list" where
  "add_entry i (Named step_name (Group form_mapping)) computed =
     AList.update step_name (Group form_mapping) computed"
| "add_entry i (Named step_name (Cls form)) computed =
     (if issubclass_Form form then AList.update step_name (Cls form) computed else computed)"
| "add_entry i (Bare form) computed = AList.update (text_type_nat i) form computed"

fun walk_form_list ::
  "nat \<Rightarrow> entry list \<Rightarrow> (string \<times> form_struct) list \<Rightarrow> (string \<times> form_struct) list" where
  "walk_form_list i [] computed = computed"
| "walk_form_list i (form # rest) computed = walk_form_list (Suc i) rest (add_entry i form computed)"

text \<open>Lines 90-95: the fields of one form of the collection.\<close>

fun check_fields :: "bool \<Rightarrow> (string \<times> form_field) list \<Rightarrow> error + unit" where
  "check_fields has_file_storage [] = Inr ()"
| "check_fields has_file_storage ((name, field) # rest) =
     (if field = FileField \<and> \<not> has_file_storage then Inl NoFileStorageConfigured
      else check_fields has_file_storage rest)"

text \<open>Lines 87-95: the forms of one collection.\<close>

fun check_collection :: "bool \<Rightarrow> form_class list \<Rightarrow> error + unit" where
  "check_collection has_file_storage [] = Inr ()"
| "check_collection has_file_storage (form # rest) =
     (case base_fields form of
        Inl e \<Rightarrow> Inl e
      | Inr fields \<Rightarrow>
          (case check_fields has_file_storage fields of
             Inl e \<Rightarrow> Inl e
           | Inr u \<Rightarrow> check_collection has_file_storage rest))"

text \<open>Lines 78-85: the collection that is checked for one step. It starts empty; a dict
  gives its values, a formset class gives its item form, and nothing else assigns it.\<close>

fun form_collection_of :: "form_struct \<Rightarrow> error + form_class list" where
  "form_collection_of (Group form_mapping) = Inr (map snd form_mapping)"
| "form_collection_of (Cls form) =
     (if issubclass_BaseFormSet form then
        (case item_form form of Inl e \<Rightarrow> Inl e | Inr f \<Rightarrow> Inr [f])
      else Inr [])"

text \<open>Lines 77-95.\<close>

fun check_file_fields :: "bool \<Rightarrow> form_struct list \<Rightarrow> error + unit" where
  "check_file_fields has_file_storage [] = Inr ()"
| "check_file_fields has_file_storage (form # rest) =
     (case form_collection_of form of
        Inl e \<Rightarrow> Inl e
      | Inr form_collection \<Rightarrow>
          (case check_collection has_file_storage form_collection of
             Inl e \<Rightarrow> Inl e
           | Inr u \<Rightarrow> check_file_fields has_file_storage rest))"

text \<open>The class attributes that \<open>getattr(cls, ...)\<close> and \<open>hasattr(cls, 'file_storage')\<close> read.\<close>

record wizard_class =
  cls_form_list :: "entry list option"
  cls_initial_dict :: pyval
  cls_instance_dict :: pyval
  cls_condition_dict :: pyval
  cls_has_file_storage :: bool

record initkwargs =
  ik_form_list :: "(string \<times> form_struct) list"
  ik_initial_dict :: pyval
  ik_instance_dict :: pyval
  ik_condition_dict :: pyval

text \<open>\<open>form_list or kwargs.pop('form_list', getattr(cls, 'form_list', None)) or []\<close>. The name
  \<open>form_list\<close> is a parameter of the function, so it is never a key of \<open>kwargs\<close> and the \<open>pop\<close>
  always yields the class attribute. \<open>None\<close> and the empty list are both false.\<close>

definition resolve_form_list :: "entry list option \<Rightarrow> entry list option \<Rightarrow> entry list" where
  "resolve_form_list form_list cls_attr =
     (case form_list of
        Some (e # es) \<Rightarrow> e # es
      | _ \<Rightarrow> (case cls_attr of Some (e # es) \<Rightarrow> e # es | _ \<Rightarrow> []))"

definition get_initkwargs ::
  "wizard_class \<Rightarrow> entry list option \<Rightarrow> pyval \<Rightarrow> pyval \<Rightarrow> pyval \<Rightarrow> error + initkwargs" where
  "get_initkwargs cls form_list initial_dict instance_dict condition_dict =
     (let form_list = resolve_form_list form_list (cls_form_list cls) in
      if \<not> (length form_list > 0) then Inl AssertionError
      else
        let computed_form_list = walk_form_list 0 form_list [] in
        (case check_file_fields (cls_has_file_storage cls) (map snd computed_form_list) of
           Inl e \<Rightarrow> Inl e
         | Inr u \<Rightarrow>
             Inr \<lparr> ik_form_list = computed_form_list,
                   ik_initial_dict = py_or (py_or initial_dict (cls_initial_dict cls)) (PDict []),
                   ik_instance_dict = py_or (py_or instance_dict (cls_instance_dict cls)) (PDict []),
                   ik_condition_dict =
                     py_or (py_or condition_dict (cls_condition_dict cls)) (PDict []) \<rparr>))"

section \<open>\<open>NamedUrlWizardView.get_initkwargs\<close>\<close>

text \<open>Lines 379-389. \<open>url_name\<close> and \<open>done_step_name\<close> are the keyword arguments of those
  names, \<open>None\<close> when the keyword is absent.\<close>

record named_initkwargs = initkwargs +
  ik_done_step_name :: string
  ik_url_name :: string

definition named_get_initkwargs ::
  "wizard_class \<Rightarrow> string option \<Rightarrow> string option \<Rightarrow> entry list option \<Rightarrow> pyval \<Rightarrow> pyval \<Rightarrow> pyval
     \<Rightarrow> error + named_initkwargs" where
  "named_get_initkwargs cls url_name done_step_name form_list initial_dict instance_dict
       condition_dict =
     (case url_name of
        None \<Rightarrow> Inl AssertionError
      | Some url \<Rightarrow>
          (case get_initkwargs cls form_list initial_dict instance_dict condition_dict of
             Inl e \<Rightarrow> Inl e
           | Inr initkwargs \<Rightarrow>
               (let done_name = (case done_step_name of None \<Rightarrow> ''done'' | Some d \<Rightarrow> d) in
                if done_name \<in> fst ` set (ik_form_list initkwargs) then Inl AssertionError
                else Inr (initkwargs.extend initkwargs
                       \<lparr> ik_done_step_name = done_name, ik_url_name = url \<rparr>))))"

section \<open>Forms, storage and the wizard instance\<close>

type_synonym qdict = "(string \<times> string) list"

text \<open>
  A form object is what its constructor was given: the class and the keyword arguments
  \<open>data\<close>, \<open>files\<close>, \<open>prefix\<close>, \<open>initial\<close>, \<open>instance\<close> or \<open>queryset\<close> (absent when not passed) and the
  keyword arguments of the hook \<open>get_form_kwargs\<close>. \<open>fo_tag\<close> is the attribute \<open>_tag\<close> that
  \<open>get_forms\<close> sets on the forms of a grouped step; \<open>None\<close> means the attribute is absent.
  Constructors are taken to accept the keyword arguments they are called with.
\<close>

record form_obj =
  fo_class :: form_class
  fo_data :: "qdict option"
  fo_files :: "qdict option"
  fo_prefix :: string
  fo_initial :: pyval
  fo_instance :: "pyval option"
  fo_queryset :: "pyval option"
  fo_extra :: "(string \<times> pyval) list"
  fo_tag :: "string option"

text \<open>The storage backend (session or cookie), by its interface: the current step, the data
  and files kept per step, and the extra data. A step is named by a string, and the module
  can also pass \<open>None\<close> where it passes \<open>steps.current\<close> or \<open>steps.next\<close>, so the keys are
  optional names.\<close>

record storage =
  current_step :: "string option"
  step_data :: "(string option \<times> qdict) list"
  step_files :: "(string option \<times> qdict) list"
  extra_data :: "(string \<times> string) list"

text \<open>\<open>storage.reset()\<close> clears all of it.\<close>

definition reset :: "storage \<Rightarrow> storage" where
  "reset st = \<lparr> current_step = None, step_data = [], step_files = [], extra_data = [] \<rparr>"

definition get_step_data :: "storage \<Rightarrow> string option \<Rightarrow> qdict option" where
  "get_step_data st step = map_of (step_data st) step"

text \<open>The backend returns \<open>files or None\<close>.\<close>

definition get_step_files :: "storage \<Rightarrow> string option \<Rightarrow> qdict option" where
  "get_step_files st step =
     (case map_of (step_files st) step of
        None \<Rightarrow> None
      | Some files \<Rightarrow> (if files = [] then None else Some files))"

definition set_step_data :: "string option \<Rightarrow> qdict \<Rightarrow> storage \<Rightarrow> storage" where
  "set_step_data step d st = st\<lparr> step_data := AList.update step d (step_data st) \<rparr>"

definition set_step_files :: "string option \<Rightarrow> qdict \<Rightarrow> storage \<Rightarrow> storage" where
  "set_step_files step f st = st\<lparr> step_files := AList.update step f (step_files st) \<rparr>"

text \<open>What finalize hands to \<open>done\<close> for one step: the form itself, or a dict from tag to form.\<close>

datatype result = Single form_obj | Grouped "(string \<times> form_obj) list"

text \<open>The argument \<open>forms\<close> of \<open>render\<close>: a list of forms, or one form object where an inherited
  caller passes the result of \<open>get_form\<close>.\<close>

datatype forms_arg = FormList "form_obj list" | OneForm form_obj

text \<open>A response: the rendered template with its context (the forms, \<open>steps.current\<close> of the
  management form, the extra data), a redirect to an address, or whatever \<open>done\<close> returns.\<close>

datatype response =
    Rendered forms_arg "string option" "(string \<times> string) list"
  | Redirect string
  | DoneResponse string

text \<open>
  The wizard instance. \<open>w_named\<close> tells \<open>NamedUrlWizardView\<close> from \<open>MultipleFormWizardView\<close>.
  \<open>w_form_list\<close> is the computed form list. The other fields are the collaborators:
  \<^item> \<open>w_condition\<close>: whether \<open>condition_dict\<close> keeps a step in \<open>get_form_list()\<close> (a condition may
    be a callable that reads the storage);
  \<^item> \<open>w_get_form_prefix\<close>, \<open>w_get_form_initial\<close>, \<open>w_get_form_instance\<close>, \<open>w_get_form_kwargs\<close>: the
    hooks of those names, each called with the step (and the form class);
  \<^item> \<open>w_clean\<close>: whether a bound form has no errors;
  \<^item> \<open>w_done\<close>: the terminal callback, which returns a response or raises;
  \<^item> \<open>w_base_revalidation_failure\<close>: \<open>render_revalidation_failure\<close> as the base wizard
    inherits it;
  \<^item> \<open>w_get_form\<close>: the inherited \<open>get_form\<close> (singular), used by \<open>NamedUrlWizardView.get\<close>;
  \<^item> \<open>w_reverse\<close>: \<open>reverse(self.url_name, kwargs={'step': step})\<close>;
  \<^item> \<open>w_done_step_name\<close>: the reserved name of the done address.
\<close>

record wizard =
  w_named :: bool
  w_form_list :: "(string \<times> form_struct) list"
  w_condition :: "storage \<Rightarrow> string \<Rightarrow> bool"
  w_get_form_prefix :: "string \<Rightarrow> form_class \<Rightarrow> string"
  w_get_form_initial :: "string \<Rightarrow> pyval"
  w_get_form_instance :: "string \<Rightarrow> pyval"
  w_get_form_kwargs :: "string \<Rightarrow> (string \<times> pyval) list"
  w_clean :: "form_obj \<Rightarrow> bool"
  w_done :: "result list \<Rightarrow> (string \<times> result) list \<Rightarrow> error + response"
  w_base_revalidation_failure ::
    "string \<Rightarrow> form_obj \<Rightarrow> storage \<Rightarrow> (error + response) \<times> storage"
  w_get_form :: "storage \<Rightarrow> string option \<Rightarrow> qdict option \<Rightarrow> qdict option \<Rightarrow> error + form_obj"
  w_reverse :: "string option \<Rightarrow> string"
  w_done_step_name :: string

text \<open>What a request handler works on: the storage, and the calls of \<open>done\<close> made so far (each
  with its two arguments \<open>form_list\<close> and \<open>form_dict\<close>).\<close>

record world =
  wd_storage :: storage
  wd_done_calls :: "(result list \<times> (string \<times> result) list) list"

text \<open>\<open>form.is_valid()\<close>: a form is bound when it was given data or files, and an unbound form
  is never valid.\<close>

definition is_bound :: "form_obj \<Rightarrow> bool" where
  "is_bound f = (fo_data f \<noteq> None \<or> fo_files f \<noteq> None)"

definition is_valid :: "wizard \<Rightarrow> form_obj \<Rightarrow> bool" where
  "is_valid w f = (is_bound f \<and> w_clean w f)"

subsection \<open>The steps helper\<close>

text \<open>\<open>get_form_list()\<close>: the steps of the form list whose condition holds, in order.\<close>

definition get_form_list :: "wizard \<Rightarrow> storage \<Rightarrow> (string \<times> form_struct) list" where
  "get_form_list w st = filter (\<lambda>(step, form). w_condition w st step) (w_form_list w)"

definition steps_all :: "wizard \<Rightarrow> storage \<Rightarrow> string list" where
  "steps_all w st = map fst (get_form_list w st)"

definition steps_first :: "wizard \<Rightarrow> storage \<Rightarrow> string option" where
  "steps_first w st = (case steps_all w st of [] \<Rightarrow> None | step # rest \<Rightarrow> Some step)"

definition steps_last :: "wizard \<Rightarrow> storage \<Rightarrow> string option" where
  "steps_last w st = (case rev (steps_all w st) of [] \<Rightarrow> None | step # rest \<Rightarrow> Some step)"

text \<open>\<open>steps.current\<close> is \<open>storage.current_step or steps.first\<close>; an empty name is false.\<close>

definition steps_current :: "wizard \<Rightarrow> storage \<Rightarrow> string option" where
  "steps_current w st =
     (case current_step st of
        None \<Rightarrow> steps_first w st
      | Some step \<Rightarrow> (if step = [] then steps_first w st else Some step))"

text \<open>\<open>keys.index(step)\<close>\<close>

fun index_of :: "string option \<Rightarrow> string list \<Rightarrow> nat option" where
  "index_of step [] = None"
| "index_of step (k # ks) =
     (if step = Some k then Some 0 else map_option Suc (index_of step ks))"

text \<open>\<open>steps.next\<close>, that is \<open>get_next_step()\<close>: the key after the current one, \<open>None\<close> after the
  last, and a \<open>ValueError\<close> of \<open>index\<close> when the current step is not a key.\<close>

definition get_next_step :: "wizard \<Rightarrow> storage \<Rightarrow> error + string option" where
  "get_next_step w st =
     (let keys = steps_all w st in
      case index_of (steps_current w st) keys of
        None \<Rightarrow> Inl ValueError
      | Some i \<Rightarrow> (if length keys > i + 1 then Inr (Some (keys ! (i + 1))) else Inr None))"

definition get_step_url :: "wizard \<Rightarrow> string option \<Rightarrow> string" where
  "get_step_url w step = w_reverse w step"

section \<open>\<open>get_forms\<close>\<close>

text \<open>\<open>d.get(form_name, None) if d else None\<close>, for the per-step \<open>initial\<close> and \<open>instance\<close> values
  of a grouped step. An object that is not a dict has no \<open>get\<close>.\<close>

fun py_get :: "pyval \<Rightarrow> string \<Rightarrow> error + pyval" where
  "py_get (PDict d) k = Inr (case map_of d k of None \<Rightarrow> PNone | Some v \<Rightarrow> v)"
| "py_get v k = Inl AttributeError"

definition sub_get :: "pyval \<Rightarrow> string \<Rightarrow> error + pyval" where
  "sub_get d form_name = (if truthy d then py_get d form_name else Inr PNone)"

text \<open>\<open>kwargs.setdefault(key, v)\<close> read back: the hook's value when it gave one.\<close>

definition setdefault :: "(string \<times> pyval) list \<Rightarrow> string \<Rightarrow> pyval \<Rightarrow> pyval" where
  "setdefault kwargs key v = (case map_of kwargs key of Some x \<Rightarrow> x | None \<Rightarrow> v)"

text \<open>Lines 265-278: the loop over \<open>form_struct.items()\<close>. Every form gets the prefix
  \<open>get_form_prefix(step, form_class)\<close> and then the attribute \<open>_tag\<close>.\<close>

fun build_group ::
  "wizard \<Rightarrow> string \<Rightarrow> qdict option \<Rightarrow> qdict option \<Rightarrow> pyval \<Rightarrow> pyval
     \<Rightarrow> (string \<times> form_class) list \<Rightarrow> form_obj list \<Rightarrow> error + form_obj list" where
  "build_group w step data files initial_dict instance_dict [] form_collection =
     Inr form_collection"
| "build_group w step data files initial_dict instance_dict ((form_name, form_class) # rest)
       form_collection =
     (case sub_get initial_dict form_name of
        Inl e \<Rightarrow> Inl e
      | Inr initial \<Rightarrow>
          (case sub_get instance_dict form_name of
             Inl e \<Rightarrow> Inl e
           | Inr instance \<Rightarrow>
               (let kwargs = w_get_form_kwargs w step;
                    form = \<lparr> fo_class = form_class, fo_data = data, fo_files = files,
                             fo_prefix = w_get_form_prefix w step form_class,
                             fo_initial = initial,
                             fo_instance = Some (setdefault kwargs ''instance'' instance),
                             fo_queryset = None, fo_extra = kwargs,
                             fo_tag = Some form_name \<rparr>
                in build_group w step data files initial_dict instance_dict rest
                     (form_collection @ [form]))))"

text \<open>Lines 279-314: a step of one class. A class under none of the three \<open>issubclass\<close> tests
  (a plain formset) leaves the collection empty.\<close>

definition build_single ::
  "wizard \<Rightarrow> string \<Rightarrow> qdict option \<Rightarrow> qdict option \<Rightarrow> form_class \<Rightarrow> form_obj list" where
  "build_single w step data files form_class =
     (let kwargs = w_get_form_kwargs w step;
          form = \<lparr> fo_class = form_class, fo_data = data, fo_files = files,
                   fo_prefix = w_get_form_prefix w step form_class,
                   fo_initial = w_get_form_initial w step,
                   fo_instance = None, fo_queryset = None, fo_extra = kwargs,
                   fo_tag = None \<rparr>
      in if issubclass_ModelForm_or_InlineFormSet form_class then
           [form\<lparr> fo_instance :=
                    Some (setdefault kwargs ''instance'' (w_get_form_instance w step)) \<rparr>]
         else if issubclass_Form form_class then [form]
         else if issubclass_BaseModelFormSet form_class then
           [form\<lparr> fo_queryset :=
                    Some (setdefault kwargs ''queryset'' (w_get_form_instance w step)) \<rparr>]
         else [])"

text \<open>Lines 255-315. \<open>self.form_list[step]\<close> raises \<open>KeyError\<close> for an unknown step.\<close>

definition get_forms ::
  "wizard \<Rightarrow> storage \<Rightarrow> string option \<Rightarrow> qdict option \<Rightarrow> qdict option
     \<Rightarrow> error + form_obj list" where
  "get_forms w st step data files =
     (case (case step of None \<Rightarrow> steps_current w st | Some s \<Rightarrow> Some s) of
        None \<Rightarrow> Inl KeyError
      | Some step \<Rightarrow>
          (case map_of (w_form_list w) step of
             None \<Rightarrow> Inl KeyError
           | Some (Group form_struct) \<Rightarrow>
               build_group w step data files (w_get_form_initial w step)
                 (w_get_form_instance w step) form_struct []
           | Some (Cls form_class) \<Rightarrow> Inr (build_single w step data files form_class)))"

section \<open>Rendering\<close>

text \<open>
  \<open>get_context_data\<close> and \<open>render_to_response\<close>. \<open>render\<close> calls
  \<open>self.get_context_data(forms=forms, **kwargs)\<close>. \<open>NamedUrlWizardView\<close> overrides the method
  with the signature \<open>(self, form, **kwargs)\<close>, so in that class the call lacks the
  required argument \<open>form\<close> and raises \<open>TypeError\<close>.
\<close>

definition get_context_data :: "wizard \<Rightarrow> forms_arg \<Rightarrow> storage \<Rightarrow> error + response" where
  "get_context_data w forms st =
     (if w_named w then Inl TypeError
      else Inr (Rendered forms (steps_current w st) (extra_data st)))"

fun forms_truthy :: "forms_arg \<Rightarrow> bool" where
  "forms_truthy (FormList fs) = (fs \<noteq> [])"
| "forms_truthy (OneForm f) = True"

text \<open>Lines 105-107: \<open>forms = forms or self.get_forms()\<close>.\<close>

definition render :: "wizard \<Rightarrow> forms_arg \<Rightarrow> storage \<Rightarrow> error + response" where
  "render w forms st =
     (if forms_truthy forms then get_context_data w forms st
      else (case get_forms w st None None None of
              Inl e \<Rightarrow> Inl e
            | Inr fs \<Rightarrow> get_context_data w (FormList fs) st))"

text \<open>\<open>self.storage.current_step = step\<close>\<close>

definition set_current_step :: "string option \<Rightarrow> world \<Rightarrow> world" where
  "set_current_step step wd = wd\<lparr> wd_storage := (wd_storage wd)\<lparr> current_step := step \<rparr> \<rparr>"

text \<open>\<open>render_next_step\<close>: lines 116-123, and lines 463-465 in \<open>NamedUrlWizardView\<close>.\<close>

definition render_next_step :: "wizard \<Rightarrow> world \<Rightarrow> (error + response) \<times> world" where
  "render_next_step w wd =
     (let st = wd_storage wd in
      case get_next_step w st of
        Inl e \<Rightarrow> (Inl e, wd)
      | Inr next_step \<Rightarrow>
          (if w_named w then
             (Inr (Redirect (get_step_url w next_step)), set_current_step next_step wd)
           else
             (case get_forms w st next_step (get_step_data st next_step)
                     (get_step_files st next_step) of
                Inl e \<Rightarrow> (Inl e, wd)
              | Inr new_forms \<Rightarrow>
                  (let wd' = set_current_step next_step wd
                   in (render w (FormList new_forms) (wd_storage wd'), wd')))))"

text \<open>\<open>render_goto_step\<close>: lines 130-134, and lines 472-473 in \<open>NamedUrlWizardView\<close>.\<close>

definition render_goto_step :: "wizard \<Rightarrow> string \<Rightarrow> world \<Rightarrow> (error + response) \<times> world" where
  "render_goto_step w goto_step wd =
     (let wd' = set_current_step (Some goto_step) wd; st = wd_storage wd' in
      if w_named w then (Inr (Redirect (get_step_url w (Some goto_step))), wd')
      else
        (case get_forms w st None (get_step_data st (steps_current w st))
                (get_step_files st (steps_current w st)) of
           Inl e \<Rightarrow> (Inl e, wd')
         | Inr forms \<Rightarrow> (render w (FormList forms) st, wd')))"

text \<open>\<open>render_revalidation_failure\<close>: lines 480-481 in \<open>NamedUrlWizardView\<close>; the base wizard
  inherits the method of the host framework.\<close>

definition render_revalidation_failure ::
  "wizard \<Rightarrow> string \<Rightarrow> form_obj \<Rightarrow> world \<Rightarrow> (error + response) \<times> world" where
  "render_revalidation_failure w failed_step form wd =
     (if w_named w then
        (Inr (Redirect (get_step_url w (Some failed_step))),
         set_current_step (Some failed_step) wd)
      else
        (case w_base_revalidation_failure w failed_step form (wd_storage wd) of
           (r, st') \<Rightarrow> (r, wd\<lparr> wd_storage := st' \<rparr>)))"

section \<open>\<open>render_done\<close>\<close>

text \<open>Lines 150-153: the forms of one step, appended to \<open>final_forms[form_key]\<close> until one is
  invalid.\<close>

fun validate_forms :: "wizard \<Rightarrow> form_obj list \<Rightarrow> form_obj list \<Rightarrow> form_obj + form_obj list" where
  "validate_forms w [] collected = Inr collected"
| "validate_forms w (form_obj # rest) collected =
     (if \<not> is_valid w form_obj then Inl form_obj
      else validate_forms w rest (collected @ [form_obj]))"

datatype revalidation =
    Raised error
  | Failed string form_obj
  | Passed "(string \<times> form_obj list) list"

text \<open>Lines 145-153: the walk through \<open>get_form_list()\<close>. When the forms of a step pass,
  \<open>final_forms[form_key]\<close>, set to the empty list before the inner loop, holds them all.\<close>

fun revalidate_steps ::
  "wizard \<Rightarrow> storage \<Rightarrow> string list \<Rightarrow> (string \<times> form_obj list) list \<Rightarrow> revalidation" where
  "revalidate_steps w st [] final_forms = Passed final_forms"
| "revalidate_steps w st (form_key # rest) final_forms =
     (case get_forms w st (Some form_key) (get_step_data st (Some form_key))
             (get_step_files st (Some form_key)) of
        Inl e \<Rightarrow> Raised e
      | Inr form_objs \<Rightarrow>
          (case validate_forms w form_objs [] of
             Inl form_obj \<Rightarrow> Failed form_key form_obj
           | Inr collected \<Rightarrow>
               revalidate_steps w st rest (AList.update form_key collected final_forms)))"

text \<open>Lines 162-165. The dict keeps a reference to the form whose \<open>_tag\<close> is deleted next, so
  the form in the dict is the one without the attribute. Reading \<open>form._tag\<close> of a form that
  has none raises \<open>AttributeError\<close>.\<close>

fun group_by_tag ::
  "form_obj list \<Rightarrow> (string \<times> form_obj) list \<Rightarrow> error + (string \<times> form_obj) list" where
  "group_by_tag [] formcollection_dict = Inr formcollection_dict"
| "group_by_tag (form # rest) formcollection_dict =
     (case fo_tag form of
        None \<Rightarrow> Inl AttributeError
      | Some tag \<Rightarrow>
          group_by_tag rest (AList.update tag (form\<lparr> fo_tag := None \<rparr>) formcollection_dict))"

text \<open>Lines 155-166: a collection of length one gives its form, a longer one gives the dict
  by tag, and an empty one gives no entry.\<close>

fun collect_results ::
  "(string \<times> form_obj list) list \<Rightarrow> (string \<times> result) list \<Rightarrow> error + (string \<times> result) list" where
  "collect_results [] result_forms = Inr result_forms"
| "collect_results ((form_key, formcollection) # rest) result_forms =
     (case formcollection of
        [] \<Rightarrow> collect_results rest result_forms
      | [form] \<Rightarrow> collect_results rest (AList.update form_key (Single form) result_forms)
      | form # others \<Rightarrow>
          (case group_by_tag formcollection [] of
             Inl e \<Rightarrow> Inl e
           | Inr formcollection_dict \<Rightarrow>
               collect_results rest
                 (AList.update form_key (Grouped formcollection_dict) result_forms)))"

text \<open>Lines 168-169: \<open>[result_forms[key] for key in sorted(result_forms.keys())]\<close>. The keys are
  strings, sorted as strings.\<close>

definition ordered_results :: "(string \<times> result) list \<Rightarrow> result list option" where
  "ordered_results result_forms =
     those (map (map_of result_forms) (sort (map fst result_forms)))"

definition build_results ::
  "(string \<times> form_obj list) list \<Rightarrow> error + result list \<times> (string \<times> result) list" where
  "build_results final_forms =
     (case collect_results final_forms [] of
        Inl e \<Rightarrow> Inl e
      | Inr result_forms \<Rightarrow>
          (case ordered_results result_forms of
             None \<Rightarrow> Inl KeyError
           | Some form_list \<Rightarrow> Inr (form_list, result_forms)))"

text \<open>Lines 174-176: \<open>done\<close> is called, and when it has returned the storage is reset. An
  exception of \<open>done\<close> leaves the function at line 174.\<close>

definition call_done ::
  "wizard \<Rightarrow> result list \<Rightarrow> (string \<times> result) list \<Rightarrow> world \<Rightarrow> (error + response) \<times> world" where
  "call_done w form_list result_forms wd =
     (let wd' = wd\<lparr> wd_done_calls := wd_done_calls wd @ [(form_list, result_forms)] \<rparr> in
      case w_done w form_list result_forms of
        Inl e \<Rightarrow> (Inl e, wd')
      | Inr done_response \<Rightarrow>
          (Inr done_response, wd'\<lparr> wd_storage := reset (wd_storage wd') \<rparr>))"

text \<open>\<open>MultipleFormWizardView.render_done\<close>, lines 143-176.\<close>

definition render_done_base :: "wizard \<Rightarrow> world \<Rightarrow> (error + response) \<times> world" where
  "render_done_base w wd =
     (let st = wd_storage wd in
      case revalidate_steps w st (steps_all w st) [] of
        Raised e \<Rightarrow> (Inl e, wd)
      | Failed form_key form_obj \<Rightarrow> render_revalidation_failure w form_key form_obj wd
      | Passed final_forms \<Rightarrow>
          (case build_results final_forms of
             Inl e \<Rightarrow> (Inl e, wd)
           | Inr (form_list, result_forms) \<Rightarrow> call_done w form_list result_forms wd))"

section \<open>Requests\<close>

text \<open>
  A request: the POST data and files, the result of
  \<open>ManagementForm(request.POST, prefix=self.prefix)\<close> (the cleaned \<open>current_step\<close> when the
  management form is valid, \<open>None\<close> when it is not), the GET parameters with their
  \<open>urlencode()\<close>, and the keyword argument \<open>step\<close> of the URL.
\<close>

record request =
  rq_POST :: qdict
  rq_FILES :: qdict
  rq_management :: "string option"
  rq_GET :: qdict
  rq_query :: string
  rq_step :: "string option"

text \<open>\<open>render_done\<close> as the instance dispatches it: lines 488-490 in \<open>NamedUrlWizardView\<close>.\<close>

definition render_done :: "wizard \<Rightarrow> request \<Rightarrow> world \<Rightarrow> (error + response) \<times> world" where
  "render_done w rq wd =
     (if w_named w \<and> rq_step rq \<noteq> Some (w_done_step_name w) then
        (Inr (Redirect (get_step_url w (Some (w_done_step_name w)))), wd)
      else render_done_base w wd)"

text \<open>\<open>wizard_goto_step and wizard_goto_step in self.get_form_list()\<close>\<close>

definition goto_directive :: "wizard \<Rightarrow> request \<Rightarrow> storage \<Rightarrow> string option" where
  "goto_directive w rq st =
     (case map_of (rq_POST rq) ''wizard_goto_step'' of
        None \<Rightarrow> None
      | Some wizard_goto_step \<Rightarrow>
          (if wizard_goto_step \<noteq> [] \<and> wizard_goto_step \<in> set (steps_all w st)
           then Some wizard_goto_step else None))"

text \<open>Lines 216-220: the current step of the management form against the tracked one.\<close>

definition sync_current_step :: "wizard \<Rightarrow> string \<Rightarrow> storage \<Rightarrow> storage" where
  "sync_current_step w form_current_step st =
     (if Some form_current_step \<noteq> steps_current w st \<and> current_step st \<noteq> None
      then st\<lparr> current_step := Some form_current_step \<rparr> else st)"

text \<open>\<open>process_step(form)\<close> and \<open>process_step_files(form)\<close>: the data and the files of the form.\<close>

definition process_step :: "form_obj \<Rightarrow> qdict" where
  "process_step form = (case fo_data form of None \<Rightarrow> [] | Some d \<Rightarrow> d)"

definition process_step_files :: "form_obj \<Rightarrow> qdict" where
  "process_step_files form = (case fo_files form of None \<Rightarrow> [] | Some d \<Rightarrow> d)"

text \<open>Lines 231-242. \<open>form\<close> is the variable of the loop of lines 227-229: the last form, and
  unbound when there was none.\<close>

definition store_and_proceed ::
  "wizard \<Rightarrow> request \<Rightarrow> form_obj list \<Rightarrow> world \<Rightarrow> (error + response) \<times> world" where
  "store_and_proceed w rq forms wd =
     (case rev forms of
        [] \<Rightarrow> (Inl UnboundLocalError, wd)
      | form # earlier \<Rightarrow>
          (let st1 = wd_storage wd;
               st2 = set_step_data (steps_current w st1) (process_step form) st1;
               st3 = set_step_files (steps_current w st2) (process_step_files form) st2;
               wd' = wd\<lparr> wd_storage := st3 \<rparr>
           in if steps_current w st3 = steps_last w st3 then render_done w rq wd'
              else render_next_step w wd'))"

text \<open>Lines 222-244: the forms of the current step are built from the request and
  validated.\<close>

definition validate_and_proceed ::
  "wizard \<Rightarrow> request \<Rightarrow> world \<Rightarrow> (error + response) \<times> world" where
  "validate_and_proceed w rq wd =
     (let st = wd_storage wd in
      case get_forms w st None (Some (rq_POST rq)) (Some (rq_FILES rq)) of
        Inl e \<Rightarrow> (Inl e, wd)
      | Inr forms \<Rightarrow>
          (if list_all (is_valid w) forms then store_and_proceed w rq forms wd
           else (render w (FormList forms) st, wd)))"

text \<open>\<open>MultipleFormWizardView.post\<close>, lines 204-244.\<close>

definition post :: "wizard \<Rightarrow> request \<Rightarrow> world \<Rightarrow> (error + response) \<times> world" where
  "post w rq wd =
     (case goto_directive w rq (wd_storage wd) of
        Some wizard_goto_step \<Rightarrow> render_goto_step w wizard_goto_step wd
      | None \<Rightarrow>
          (case rq_management rq of
             None \<Rightarrow> (Inl ValidationError, wd)
           | Some form_current_step \<Rightarrow>
               validate_and_proceed w rq
                 (wd\<lparr> wd_storage := sync_current_step w form_current_step (wd_storage wd) \<rparr>)))"

text \<open>\<open>NamedUrlWizardView.post\<close>, lines 444-447: the same test, then the inherited method.\<close>

definition named_post :: "wizard \<Rightarrow> request \<Rightarrow> world \<Rightarrow> (error + response) \<times> world" where
  "named_post w rq wd =
     (case goto_directive w rq (wd_storage wd) of
        Some wizard_goto_step \<Rightarrow> render_goto_step w wizard_goto_step wd
      | None \<Rightarrow> post w rq wd)"

text \<open>\<open>MultipleFormWizardView.get\<close>, lines 187-191.\<close>

definition get :: "wizard \<Rightarrow> world \<Rightarrow> (error + response) \<times> world" where
  "get w wd =
     (let st1 = reset (wd_storage wd);
          st2 = st1\<lparr> current_step := steps_first w st1 \<rparr>;
          wd' = wd\<lparr> wd_storage := st2 \<rparr>
      in case get_forms w st2 None None None of
           Inl e \<Rightarrow> (Inl e, wd')
         | Inr forms \<Rightarrow> (render w (FormList forms) st2, wd'))"

text \<open>Lines 422-425 and 429-432: \<open>self.render(self.get_form(data=..., files=...))\<close> with the
  current data and files of the storage.\<close>

definition render_current :: "wizard \<Rightarrow> world \<Rightarrow> (error + response) \<times> world" where
  "render_current w wd =
     (let st = wd_storage wd in
      case w_get_form w st None (get_step_data st (current_step st))
             (get_step_files st (current_step st)) of
        Inl e \<Rightarrow> (Inl e, wd)
      | Inr form \<Rightarrow> (render w (OneForm form) st, wd))"

text \<open>\<open>NamedUrlWizardView.get\<close>, lines 398-437.\<close>

definition named_get :: "wizard \<Rightarrow> request \<Rightarrow> world \<Rightarrow> (error + response) \<times> world" where
  "named_get w rq wd =
     (let st = wd_storage wd in
      case rq_step rq of
        None \<Rightarrow>
          (let wd1 = (if ''reset'' \<in> fst ` set (rq_GET rq)
                      then set_current_step (steps_first w (reset st))
                             (wd\<lparr> wd_storage := reset st \<rparr>)
                      else wd);
               query_string = (if rq_GET rq \<noteq> [] then ''?'' @ rq_query rq else [])
           in (Inr (Redirect (get_step_url w (steps_current w (wd_storage wd1)) @ query_string)),
               wd1))
      | Some step_url \<Rightarrow>
          (if step_url = w_done_step_name w then
             (let last_step = steps_last w st in
              case w_get_form w st last_step (get_step_data st last_step)
                     (get_step_files st last_step) of
                Inl e \<Rightarrow> (Inl e, wd)
              | Inr form \<Rightarrow> render_done w rq wd)
           else if Some step_url = steps_current w st then render_current w wd
           else if step_url \<in> set (steps_all w st) then
             render_current w (set_current_step (Some step_url) wd)
           else
             (let wd1 = set_current_step (steps_first w st) wd
              in (Inr (Redirect (get_step_url w (steps_first w (wd_storage wd1)))), wd1))))"

section \<open>Predicates of the statements\<close>

text \<open>The forms that finalize rebuilds for a step from what the storage keeps for it.\<close>

definition rebuilt_forms :: "wizard \<Rightarrow> storage \<Rightarrow> string \<Rightarrow> error + form_obj list" where
  "rebuilt_forms w st form_key =
     get_forms w st (Some form_key) (get_step_data st (Some form_key))
       (get_step_files st (Some form_key))"

text \<open>A step revalidates: its forms are rebuilt without an exception and all are valid.\<close>

definition step_revalidates :: "wizard \<Rightarrow> storage \<Rightarrow> string \<Rightarrow> bool" where
  "step_revalidates w st form_key =
     (case rebuilt_forms w st form_key of
        Inl e \<Rightarrow> False
      | Inr form_objs \<Rightarrow> list_all (is_valid w) form_objs)"


text \<open>A collection that lines 155-166 can turn into a result: at most one form, or every
  form tagged.\<close>

definition presentable :: "form_obj list \<Rightarrow> bool" where
  "presentable fs = (length fs \<le> 1 \<or> list_all (\<lambda>f. fo_tag f \<noteq> None) fs)"

section \<open>Concrete wizards\<close>

text \<open>
  The inputs at which the theorems below are evaluated. The hooks are the defaults of the
  host framework: the prefix of a form is the name of its step, there is no initial value,
  no instance and no extra keyword argument. A bound form is clean when its data holds a
  non-empty value for the field \<open>name\<close> under the form's prefix.
  \<open>demo_get_form\<close> is the inherited \<open>get_form\<close> of the host framework under these hooks: it
  reads \<open>self.form_list[step]\<close>, with \<open>steps.current\<close> for an absent step, and asks
  \<open>issubclass\<close> of what it finds, which raises \<open>TypeError\<close> when that is the dict of a grouped
  step.
\<close>

definition plain_class :: wizard_class where
  "plain_class = \<lparr> cls_form_list = None, cls_initial_dict = PNone, cls_instance_dict = PNone,
                   cls_condition_dict = PNone, cls_has_file_storage = False \<rparr>"

definition UploadForm :: form_class where
  "UploadForm = Form ''UploadForm'' [(''document'', FileField)]"

definition NameForm :: form_class where
  "NameForm = Form ''NameForm'' [(''name'', OtherField)]"

definition demo_clean :: "form_obj \<Rightarrow> bool" where
  "demo_clean f =
     (case fo_data f of
        None \<Rightarrow> False
      | Some d \<Rightarrow> (case map_of d (fo_prefix f @ ''-name'') of None \<Rightarrow> False | Some v \<Rightarrow> v \<noteq> []))"

definition demo_get_form ::
  "(string \<times> form_struct) list \<Rightarrow> storage \<Rightarrow> string option \<Rightarrow> qdict option \<Rightarrow> qdict option
     \<Rightarrow> error + form_obj" where
  "demo_get_form fl st step data files =
     (case (case step of
              Some s \<Rightarrow> Some s
            | None \<Rightarrow>
                (case current_step st of
                   Some s \<Rightarrow> (if s = [] then map_option fst (List.find (\<lambda>x. True) fl) else Some s)
                 | None \<Rightarrow> map_option fst (List.find (\<lambda>x. True) fl))) of
        None \<Rightarrow> Inl KeyError
      | Some s \<Rightarrow>
          (case map_of fl s of
             None \<Rightarrow> Inl KeyError
           | Some (Group g) \<Rightarrow> Inl TypeError
           | Some (Cls c) \<Rightarrow>
               Inr \<lparr> fo_class = c, fo_data = data, fo_files = files, fo_prefix = s,
                     fo_initial = PDict [],
                     fo_instance =
                       (if issubclass_ModelForm_or_InlineFormSet c then Some PNone else None),
                     fo_queryset =
                       (if \<not> issubclass_ModelForm_or_InlineFormSet c
                           \<and> issubclass_BaseModelFormSet c then Some PNone else None),
                     fo_extra = [], fo_tag = None \<rparr>))"

definition demo_wizard ::
  "bool \<Rightarrow> (string \<times> form_struct) list
     \<Rightarrow> (result list \<Rightarrow> (string \<times> result) list \<Rightarrow> error + response) \<Rightarrow> wizard" where
  "demo_wizard named fl done =
     \<lparr> w_named = named, w_form_list = fl,
       w_condition = (\<lambda>st step. True),
       w_get_form_prefix = (\<lambda>step form_class. step),
       w_get_form_initial = (\<lambda>step. PDict []),
       w_get_form_instance = (\<lambda>step. PNone),
       w_get_form_kwargs = (\<lambda>step. []),
       w_clean = demo_clean,
       w_done = done,
       w_base_revalidation_failure =
         (\<lambda>step form st.
            (Inr (Rendered (OneForm form) (Some step) (extra_data st)),
             st\<lparr> current_step := Some step \<rparr>)),
       w_get_form = demo_get_form fl,
       w_reverse = (\<lambda>step. ''/wizard/'' @ (case step of None \<Rightarrow> [] | Some s \<Rightarrow> s)),
       w_done_step_name = ''done'' \<rparr>"

definition done_ok :: "result list \<Rightarrow> (string \<times> result) list \<Rightarrow> error + response" where
  "done_ok form_list form_dict = Inr (DoneResponse ''thanks'')"

definition done_raises :: "result list \<Rightarrow> (string \<times> result) list \<Rightarrow> error + response" where
  "done_raises form_list form_dict = Inl (CallbackError ''mail server down'')"

text \<open>A form of the class \<open>NameForm\<close> as \<open>get_forms\<close> builds it for an ungrouped step.\<close>

definition name_form :: "string \<Rightarrow> qdict option \<Rightarrow> form_obj" where
  "name_form step data =
     \<lparr> fo_class = NameForm, fo_data = data, fo_files = None, fo_prefix = step,
       fo_initial = PDict [], fo_instance = None, fo_queryset = None, fo_extra = [],
       fo_tag = None \<rparr>"

text \<open>Two steps \<open>a\<close> and \<open>b\<close>; valid data is kept for \<open>a\<close> only.\<close>

definition ab_steps :: "(string \<times> form_struct) list" where
  "ab_steps = [(''a'', Cls NameForm), (''b'', Cls NameForm)]"

definition only_a_stored :: world where
  "only_a_stored =
     \<lparr> wd_storage = \<lparr> current_step = Some ''b'',
                       step_data = [(Some ''a'', [(''a-name'', ''Ann'')])],
                       step_files = [], extra_data = [] \<rparr>,
       wd_done_calls = [] \<rparr>"

text \<open>The same two steps with data kept for both, that of \<open>a\<close> no longer valid.\<close>

definition a_corrupted :: world where
  "a_corrupted =
     \<lparr> wd_storage = \<lparr> current_step = Some ''b'',
                       step_data = [(Some ''a'', [(''a-name'', [])]),
                                    (Some ''b'', [(''b-name'', ''Bob'')])],
                       step_files = [], extra_data = [] \<rparr>,
       wd_done_calls = [] \<rparr>"

text \<open>A GET request for the done address.\<close>

definition done_request :: request where
  "done_request = \<lparr> rq_POST = [], rq_FILES = [], rq_management = None, rq_GET = [],
                     rq_query = [], rq_step = Some ''done'' \<rparr>"

text \<open>Two steps declared in the order \<open>b\<close>, \<open>a\<close>, with valid data for both.\<close>

definition ba_steps :: "(string \<times> form_struct) list" where
  "ba_steps = [(''b'', Cls NameForm), (''a'', Cls NameForm)]"

definition both_stored :: world where
  "both_stored =
     \<lparr> wd_storage = \<lparr> current_step = Some ''a'',
                       step_data = [(Some ''b'', [(''b-name'', ''Bob'')]),
                                    (Some ''a'', [(''a-name'', ''Ann'')])],
                       step_files = [], extra_data = [] \<rparr>,
       wd_done_calls = [] \<rparr>"


definition two_tag_steps :: "(string \<times> form_struct) list" where
  "two_tag_steps = [(''contact'', Group [(''a'', NameForm), (''b'', NameForm)])]"

definition contact_stored :: world where
  "contact_stored =
     \<lparr> wd_storage = \<lparr> current_step = Some ''contact'',
                       step_data = [(Some ''contact'', [(''contact-name'', ''Ann'')])],
                       step_files = [], extra_data = [] \<rparr>,
       wd_done_calls = [] \<rparr>"

text \<open>A form of a grouped step as \<open>get_forms\<close> builds it, with its tag.\<close>

definition tagged_form :: "string \<Rightarrow> string option \<Rightarrow> qdict option \<Rightarrow> form_obj" where
  "tagged_form step tag data =
     \<lparr> fo_class = NameForm, fo_data = data, fo_files = None, fo_prefix = step,
       fo_initial = PNone, fo_instance = Some PNone, fo_queryset = None, fo_extra = [],
       fo_tag = tag \<rparr>"

text \<open>A POST request with the given result of the management form and the given data.\<close>

definition marker_request :: "string option \<Rightarrow> qdict \<Rightarrow> request" where
  "marker_request marker data =
     \<lparr> rq_POST = data, rq_FILES = [], rq_management = marker, rq_GET = [],
       rq_query = [], rq_step = None \<rparr>"

text \<open>The step \<open>a\<close> is the tracked one, and the request submits an empty name for it.\<close>

definition a_tracked :: world where
  "a_tracked =
     \<lparr> wd_storage = \<lparr> current_step = Some ''a'',
                       step_data = [(Some ''a'', [(''a-name'', ''Ann'')])],
                       step_files = [], extra_data = [] \<rparr>,
       wd_done_calls = [] \<rparr>"

definition a_posted_empty :: request where
  "a_posted_empty =
     \<lparr> rq_POST = [(''a-name'', [])], rq_FILES = [], rq_management = Some ''a'', rq_GET = [],
       rq_query = [], rq_step = None \<rparr>"

text \<open>The wizard of the steps \<open>a\<close> and \<open>b\<close> with a condition that switches the step \<open>a\<close> off.\<close>

definition a_inactive_wizard :: wizard where
  "a_inactive_wizard =
     (demo_wizard False ab_steps done_ok)\<lparr> w_condition := (\<lambda>st step. step \<noteq> ''a'') \<rparr>"

text \<open>The step \<open>a\<close> followed by the grouped step \<open>contact\<close>, with valid data for \<open>a\<close> only, and
  with valid data for both.\<close>

definition NameModelForm :: form_class where
  "NameModelForm = ModelForm ''NameModelForm'' [(''name'', OtherField)]"

definition a_contact_steps :: "(string \<times> form_struct) list" where
  "a_contact_steps =
     [(''a'', Cls NameForm),
      (''contact'', Group [(''a'', NameModelForm), (''b'', NameModelForm)])]"

definition a_and_contact_stored :: world where
  "a_and_contact_stored =
     \<lparr> wd_storage = \<lparr> current_step = Some ''contact'',
                       step_data = [(Some ''a'', [(''a-name'', ''Ann'')]),
                                    (Some ''contact'', [(''contact-name'', ''Ann'')])],
                       step_files = [], extra_data = [] \<rparr>,
       wd_done_calls = [] \<rparr>"

section \<open>The step collection built by \<open>get_initkwargs\<close>\<close>

lemma length_update_le: "length (AList.update k v al) \<le> Suc (length al)"
  by (induction al) auto

lemma length_add_entry_le: "length (add_entry i e computed) \<le> Suc (length computed)"
  by (cases "(i, e, computed)" rule: add_entry.cases) (auto simp: length_update_le le_SucI)

lemma length_walk_form_list_le:
  "length (walk_form_list i es computed) \<le> length computed + length es"
proof (induction es arbitrary: i computed)
  case Nil
  then show ?case by simp
next
  case (Cons e es)
  have "length (walk_form_list (Suc i) es (add_entry i e computed))
          \<le> length (add_entry i e computed) + length es"
    by (rule Cons.IH)
  also have "\<dots> \<le> Suc (length computed) + length es"
    using length_add_entry_le [of i e computed] by simp
  finally show ?case by simp
qed

lemma walk_form_list_append:
  "walk_form_list i (xs @ ys) computed =
     walk_form_list (i + length xs) ys (walk_form_list i xs computed)"
  by (induction xs arbitrary: i computed) auto

text \<open>
  C10. A pair \<open>(step_name, X)\<close> of the form list whose \<open>X\<close> is a class that does not derive
  from \<open>forms.Form\<close> (and is not a dict) is skipped by the first loop of \<open>get_initkwargs\<close>: the
  iteration leaves the computed form list as it was, so the computed form list of any
  declaration that holds such a pair has fewer steps than were declared, and a form list
  of that pair alone makes \<open>get_initkwargs\<close> return, without an error, an empty step
  collection.
\<close>

theorem unsupported_pair_is_skipped:
  assumes "\<not> issubclass_Form X"
  shows "add_entry i (Named step_name (Cls X)) computed = computed
       \<and> length (walk_form_list 0 (before @ Named step_name (Cls X) # after) [])
           < length (before @ Named step_name (Cls X) # after)
       \<and> (\<exists>ik. get_initkwargs cls (Some [Named step_name (Cls X)]) a b c = Inr ik
              \<and> ik_form_list ik = [])"
proof -
  have skip: "add_entry j (Named step_name (Cls X)) acc = acc" for j acc
    using assms by simp
  have "walk_form_list 0 (before @ Named step_name (Cls X) # after) []
          = walk_form_list (Suc (length before)) after (walk_form_list 0 before [])"
    using assms by (simp add: walk_form_list_append)
  moreover have "length (walk_form_list (Suc (length before)) after (walk_form_list 0 before []))
          \<le> length (walk_form_list 0 before []) + length after"
    by (rule length_walk_form_list_le)
  moreover have "length (walk_form_list 0 before []) \<le> length before"
    using length_walk_form_list_le [of 0 before "[]"] by simp
  ultimately have fewer: "length (walk_form_list 0 (before @ Named step_name (Cls X) # after) [])
           < length (before @ Named step_name (Cls X) # after)"
    by simp
  have "\<exists>ik. get_initkwargs cls (Some [Named step_name (Cls X)]) a b c = Inr ik
              \<and> ik_form_list ik = []"
    using assms by (simp add: get_initkwargs_def resolve_form_list_def)
  with skip fewer show ?thesis by blast
qed

theorem unsupported_pair_is_skipped_witness:
  "\<not> issubclass_Form (FormSet ''ItemFormSet'' (Form ''ItemForm'' []))
   \<and> walk_form_list 0 [Bare (Cls (Form ''A'' [])),
        Named ''items'' (Cls (FormSet ''ItemFormSet'' (Form ''ItemForm'' [])))] []
       = [(''0'', Cls (Form ''A'' []))]
   \<and> length (walk_form_list 0 ([Bare (Cls (Form ''A'' []))]
        @ Named ''items'' (Cls (FormSet ''ItemFormSet'' (Form ''ItemForm'' []))) # []) []) < 2"
  using unsupported_pair_is_skipped [of "FormSet ''ItemFormSet'' (Form ''ItemForm'' [])" 1
      "''items''" "[]" "[Bare (Cls (Form ''A'' []))]" "[]"]
  by simp

text \<open>
  C9. The claim holds for the empty form list, for the forms of a grouped step and for the
  item form of a formset, and the comment of lines 88-89 announces the check for any form.
  The code misses the step of one plain form class: \<open>form_collection\<close> stays empty for it
  (lines 78-85), so its fields are never looked at. With a class that has no
  \<open>file_storage\<close>, a form list of one form with a file field, bare or under a step name,
  makes \<open>get_initkwargs\<close> return normally, while the same form as the only sub-form of a
  grouped step raises \<open>NoFileStorageConfigured\<close>, and the empty form list fails the
  assertion.
\<close>

theorem file_field_of_single_form_not_checked:
  "get_initkwargs plain_class (Some [Bare (Cls UploadForm)]) PNone PNone PNone
     = Inr \<lparr> ik_form_list = [(''0'', Cls UploadForm)], ik_initial_dict = PDict [],
             ik_instance_dict = PDict [], ik_condition_dict = PDict [] \<rparr>
   \<and> get_initkwargs plain_class (Some [Named ''upload'' (Cls UploadForm)]) PNone PNone PNone
     = Inr \<lparr> ik_form_list = [(''upload'', Cls UploadForm)], ik_initial_dict = PDict [],
             ik_instance_dict = PDict [], ik_condition_dict = PDict [] \<rparr>
   \<and> get_initkwargs plain_class (Some [Named ''upload'' (Group [(''doc'', UploadForm)])])
        PNone PNone PNone
     = Inl NoFileStorageConfigured
   \<and> get_initkwargs plain_class (Some []) PNone PNone PNone = Inl AssertionError"
  by (simp add: get_initkwargs_def resolve_form_list_def plain_class_def UploadForm_def py_or_def)

section \<open>The order of the result list\<close>

text \<open>
  C2. The comment of line 168 announces a result list "ordered by step number", and the
  code sorts the step names as strings. For the steps declared in the order \<open>b\<close>, \<open>a\<close>, both
  with valid data, \<open>done\<close> is called with the form of \<open>a\<close> before the form of \<open>b\<close>; and for
  steps named by their counters, the result of step \<open>10\<close> comes before that of step \<open>2\<close>.
\<close>

theorem result_list_sorted_by_step_name:
  "steps_all (demo_wizard False ba_steps done_ok) (wd_storage both_stored) = [''b'', ''a'']
   \<and> render_done_base (demo_wizard False ba_steps done_ok) both_stored
     = (Inr (DoneResponse ''thanks''),
        \<lparr> wd_storage = reset (wd_storage both_stored),
          wd_done_calls =
            [([Single (name_form ''a'' (Some [(''a-name'', ''Ann'')])),
               Single (name_form ''b'' (Some [(''b-name'', ''Bob'')]))],
              [(''b'', Single (name_form ''b'' (Some [(''b-name'', ''Bob'')]))),
               (''a'', Single (name_form ''a'' (Some [(''a-name'', ''Ann'')])))])] \<rparr>)
   \<and> ordered_results [(''2'', Single (name_form ''2'' None)),
                       (''10'', Single (name_form ''10'' None))]
     = Some [Single (name_form ''10'' None), Single (name_form ''2'' None)]"
  by code_simp

section \<open>Finalize: revalidation\<close>

lemma validate_forms_Inr:
  "validate_forms w fs acc = Inr coll \<longleftrightarrow> list_all (is_valid w) fs \<and> coll = acc @ fs"
  by (induction fs arbitrary: acc) auto

lemma validate_forms_Inl:
  "validate_forms w fs acc = Inl f \<longleftrightarrow> find (\<lambda>f. \<not> is_valid w f) fs = Some f"
  by (induction fs arbitrary: acc) auto

lemma revalidate_steps_Cons_passed:
  assumes "step_revalidates w st k"
  shows "\<exists>fs. rebuilt_forms w st k = Inr fs \<and> list_all (is_valid w) fs
           \<and> revalidate_steps w st (k # rest) acc
               = revalidate_steps w st rest (AList.update k fs acc)"
proof -
  from assms obtain fs where fs: "rebuilt_forms w st k = Inr fs" "list_all (is_valid w) fs"
    by (auto simp: step_revalidates_def split: sum.splits)
  then have "validate_forms w fs [] = Inr fs"
    by (simp add: validate_forms_Inr)
  with fs show ?thesis
    by (auto simp: rebuilt_forms_def)
qed

lemma revalidate_steps_first_failure:
  assumes "\<forall>k\<in>set passed. step_revalidates w st k"
    and "rebuilt_forms w st form_key = Inr form_objs"
    and "find (\<lambda>f. \<not> is_valid w f) form_objs = Some form_obj"
  shows "revalidate_steps w st (passed @ form_key # rest) acc = Failed form_key form_obj"
  using assms(1)
proof (induction passed arbitrary: acc)
  case Nil
  have "validate_forms w form_objs [] = Inl form_obj"
    using assms(3) by (simp add: validate_forms_Inl)
  with assms(2) show ?case
    by (simp add: rebuilt_forms_def)
next
  case (Cons k passed)
  then have "step_revalidates w st k" by simp
  from revalidate_steps_Cons_passed [OF this, of "passed @ form_key # rest" acc]
  obtain fs where "revalidate_steps w st (k # passed @ form_key # rest) acc
               = revalidate_steps w st (passed @ form_key # rest) (AList.update k fs acc)"
    by blast
  with Cons show ?case by simp
qed

text \<open>
  C1, as amended. Finalize rebuilds and revalidates, in the order of the step collection,
  the steps of \<open>get_form_list()\<close>: the steps of the collection whose condition holds. A step
  that its condition switches off is not revalidated. When the steps before \<open>form_key\<close>
  revalidate and \<open>form_obj\<close> is the first invalid form of \<open>form_key\<close>, \<open>render_done\<close> is the call
  of \<open>render_revalidation_failure\<close> with that step and that form, on the storage as it was on
  entry: \<open>render_done\<close> has written nothing, and \<open>done\<close> is not called. What happens to the
  storage is the handler's doing. The handler of \<open>NamedUrlWizardView\<close> sets the stored current
  step to the failing step, leaves the data, the files and the extra data as they were, and
  redirects to the address of the step; the base wizard runs the handler it inherits.
\<close>

theorem finalize_stops_at_first_invalid_step:
  assumes "steps_all w (wd_storage wd) = passed @ form_key # rest"
    and "\<forall>k\<in>set passed. step_revalidates w (wd_storage wd) k"
    and "rebuilt_forms w (wd_storage wd) form_key = Inr form_objs"
    and "find (\<lambda>f. \<not> is_valid w f) form_objs = Some form_obj"
  shows "steps_all w (wd_storage wd)
           = map fst (filter (\<lambda>(step, form). w_condition w (wd_storage wd) step) (w_form_list w))
       \<and> render_done_base w wd = render_revalidation_failure w form_key form_obj wd
       \<and> wd_done_calls (snd (render_done_base w wd)) = wd_done_calls wd
       \<and> (w_named w \<longrightarrow>
            render_done_base w wd
              = (Inr (Redirect (get_step_url w (Some form_key))),
                 wd\<lparr> wd_storage := (wd_storage wd)\<lparr> current_step := Some form_key \<rparr> \<rparr>))
       \<and> (\<not> w_named w \<longrightarrow>
            render_done_base w wd
              = (case w_base_revalidation_failure w form_key form_obj (wd_storage wd) of
                   (r, st') \<Rightarrow> (r, wd\<lparr> wd_storage := st' \<rparr>)))"
proof -
  have active: "steps_all w (wd_storage wd)
           = map fst (filter (\<lambda>(step, form). w_condition w (wd_storage wd) step) (w_form_list w))"
    by (simp add: steps_all_def get_form_list_def)
  have "revalidate_steps w (wd_storage wd) (steps_all w (wd_storage wd)) []
          = Failed form_key form_obj"
    unfolding assms(1) by (rule revalidate_steps_first_failure [OF assms(2-4)])
  then have eq: "render_done_base w wd = render_revalidation_failure w form_key form_obj wd"
    by (simp add: render_done_base_def)
  have "render_done_base w wd = render_revalidation_failure w form_key form_obj wd
       \<and> wd_done_calls (snd (render_done_base w wd)) = wd_done_calls wd
       \<and> (w_named w \<longrightarrow>
            render_done_base w wd
              = (Inr (Redirect (get_step_url w (Some form_key))),
                 wd\<lparr> wd_storage := (wd_storage wd)\<lparr> current_step := Some form_key \<rparr> \<rparr>))
       \<and> (\<not> w_named w \<longrightarrow>
            render_done_base w wd
              = (case w_base_revalidation_failure w form_key form_obj (wd_storage wd) of
                   (r, st') \<Rightarrow> (r, wd\<lparr> wd_storage := st' \<rparr>)))"
    unfolding eq
    by (auto simp: render_revalidation_failure_def set_current_step_def split: prod.splits)
  with active show ?thesis by blast
qed

theorem finalize_stops_at_first_invalid_step_witness:
  "steps_all (demo_wizard True ab_steps done_ok) (wd_storage only_a_stored) = [''a''] @ ''b'' # []
   \<and> step_revalidates (demo_wizard True ab_steps done_ok) (wd_storage only_a_stored) ''a''
   \<and> rebuilt_forms (demo_wizard True ab_steps done_ok) (wd_storage only_a_stored) ''b''
       = Inr [name_form ''b'' None]
   \<and> find (\<lambda>f. \<not> is_valid (demo_wizard True ab_steps done_ok) f) [name_form ''b'' None]
       = Some (name_form ''b'' None)
   \<and> render_done_base (demo_wizard True ab_steps done_ok) only_a_stored
       = (Inr (Redirect ''/wizard/b''),
          only_a_stored\<lparr> wd_storage := (wd_storage only_a_stored)\<lparr> current_step := Some ''b'' \<rparr> \<rparr>)"
proof -
  have h1: "steps_all (demo_wizard True ab_steps done_ok) (wd_storage only_a_stored)
              = [''a''] @ ''b'' # []"
    by code_simp
  have h2: "\<forall>k\<in>set [''a''].
              step_revalidates (demo_wizard True ab_steps done_ok) (wd_storage only_a_stored) k"
    by code_simp
  have h3: "rebuilt_forms (demo_wizard True ab_steps done_ok) (wd_storage only_a_stored) ''b''
              = Inr [name_form ''b'' None]"
    by code_simp
  have h4: "find (\<lambda>f. \<not> is_valid (demo_wizard True ab_steps done_ok) f) [name_form ''b'' None]
              = Some (name_form ''b'' None)"
    by code_simp
  have h5: "w_named (demo_wizard True ab_steps done_ok)"
    by code_simp
  have h6: "get_step_url (demo_wizard True ab_steps done_ok) (Some ''b'') = ''/wizard/b''"
    by code_simp
  from finalize_stops_at_first_invalid_step [OF h1 h2 h3 h4] h5
  have "render_done_base (demo_wizard True ab_steps done_ok) only_a_stored
       = (Inr (Redirect (get_step_url (demo_wizard True ab_steps done_ok) (Some ''b''))),
          only_a_stored\<lparr> wd_storage := (wd_storage only_a_stored)\<lparr> current_step := Some ''b'' \<rparr> \<rparr>)"
    by blast
  with h6 have h7: "render_done_base (demo_wizard True ab_steps done_ok) only_a_stored
       = (Inr (Redirect ''/wizard/b''),
          only_a_stored\<lparr> wd_storage := (wd_storage only_a_stored)\<lparr> current_step := Some ''b'' \<rparr> \<rparr>)"
    by simp
  have h2': "step_revalidates (demo_wizard True ab_steps done_ok) (wd_storage only_a_stored) ''a''"
    using h2 by simp
  show ?thesis by (intro conjI h1 h2' h3 h4 h7)
qed

text \<open>
  C1 as stated fails in two places. The storage is not left untouched: with the steps \<open>a\<close>
  and \<open>b\<close>, the stored current step \<open>b\<close> and stored data of \<open>a\<close> that is no longer valid,
  finalize of the named-URL wizard redirects to \<open>a\<close> and the stored current step is now \<open>a\<close>.
  And not every step of the collection is revalidated: when the condition of \<open>a\<close> is false,
  \<open>a\<close> is no step of \<open>get_form_list()\<close>, its invalid data is not looked at, and \<open>done\<close> is called
  with the result of \<open>b\<close> alone.
\<close>

theorem finalize_failure_changes_current_step:
  "render_done (demo_wizard True ab_steps done_ok) done_request a_corrupted
     = (Inr (Redirect ''/wizard/a''),
        \<lparr> wd_storage = \<lparr> current_step = Some ''a'',
                          step_data = [(Some ''a'', [(''a-name'', [])]),
                                       (Some ''b'', [(''b-name'', ''Bob'')])],
                          step_files = [], extra_data = [] \<rparr>,
          wd_done_calls = [] \<rparr>)
   \<and> current_step (wd_storage a_corrupted) = Some ''b''
   \<and> wd_storage (snd (render_done (demo_wizard True ab_steps done_ok) done_request a_corrupted))
       \<noteq> wd_storage a_corrupted
   \<and> map fst (w_form_list a_inactive_wizard) = [''a'', ''b'']
   \<and> steps_all a_inactive_wizard (wd_storage a_corrupted) = [''b'']
   \<and> \<not> step_revalidates a_inactive_wizard (wd_storage a_corrupted) ''a''
   \<and> render_done_base a_inactive_wizard a_corrupted
       = (Inr (DoneResponse ''thanks''),
          \<lparr> wd_storage = reset (wd_storage a_corrupted),
            wd_done_calls =
              [([Single (name_form ''b'' (Some [(''b-name'', ''Bob'')]))],
                [(''b'', Single (name_form ''b'' (Some [(''b-name'', ''Bob'')])))])] \<rparr>)"
  by code_simp

section \<open>Finalize: the results\<close>

subsection \<open>What \<open>get_forms\<close> builds\<close>

lemma build_group_shape:
  assumes "build_group w step data files ini ins items acc = Inr fs"
  shows "\<exists>new. fs = acc @ new
           \<and> map fo_tag new = map (\<lambda>(tag, c). Some tag) items
           \<and> map fo_prefix new = map (\<lambda>(tag, c). w_get_form_prefix w step c) items
           \<and> map fo_class new = map snd items"
  using assms
proof (induction items arbitrary: acc)
  case Nil
  then show ?case by simp
next
  case (Cons item items)
  obtain form_name form_class where item: "item = (form_name, form_class)"
    by (cases item)
  from Cons.prems obtain form where
      rec: "build_group w step data files ini ins items (acc @ [form]) = Inr fs"
    and form: "fo_tag form = Some form_name"
      "fo_prefix form = w_get_form_prefix w step form_class" "fo_class form = form_class"
    by (auto simp: item Let_def split: sum.splits)
  from Cons.IH [OF rec] obtain new where new: "fs = (acc @ [form]) @ new"
      "map fo_tag new = map (\<lambda>(tag, c). Some tag) items"
      "map fo_prefix new = map (\<lambda>(tag, c). w_get_form_prefix w step c) items"
      "map fo_class new = map snd items"
    by blast
  show ?case
  proof (intro exI conjI)
    show "fs = acc @ (form # new)" using new(1) by simp
  qed (simp_all add: item form new)
qed

lemma length_build_single: "length (build_single w step data files c) \<le> 1"
  by (simp add: build_single_def Let_def)

lemma fo_tag_build_single: "f \<in> set (build_single w step data files c) \<Longrightarrow> fo_tag f = None"
  by (auto simp: build_single_def Let_def split: if_splits)

lemma get_forms_presentable:
  assumes "get_forms w st step data files = Inr fs"
  shows "presentable fs"
proof -
  from assms obtain s where s: "(case step of None \<Rightarrow> steps_current w st | Some s \<Rightarrow> Some s) = Some s"
    by (auto simp: get_forms_def split: option.splits)
  from assms s obtain struct where struct: "map_of (w_form_list w) s = Some struct"
    by (auto simp: get_forms_def split: option.splits)
  show ?thesis
  proof (cases struct)
    case (Cls c)
    with assms s struct have "fs = build_single w s data files c"
      by (simp add: get_forms_def)
    then show ?thesis using length_build_single by (simp add: presentable_def)
  next
    case (Group items)
    with assms s struct have "build_group w s data files (w_get_form_initial w s)
        (w_get_form_instance w s) items [] = Inr fs"
      by (simp add: get_forms_def)
    from build_group_shape [OF this] have "map fo_tag fs = map (\<lambda>(tag, c). Some tag) items"
      by simp
    then have "\<forall>t\<in>set (map fo_tag fs). t \<noteq> None"
      by auto
    then show ?thesis by (simp add: list_all_iff presentable_def)
  qed
qed

lemma get_forms_Group:
  assumes "get_forms w st (Some step) data files = Inr fs"
    and "map_of (w_form_list w) step = Some (Group items)"
  shows "map fo_tag fs = map (\<lambda>(tag, c). Some tag) items
       \<and> map fo_prefix fs = map (\<lambda>(tag, c). w_get_form_prefix w step c) items
       \<and> map fo_class fs = map snd items"
proof -
  from assms have "build_group w step data files (w_get_form_initial w step)
        (w_get_form_instance w step) items [] = Inr fs"
    by (simp add: get_forms_def)
  from build_group_shape [OF this] show ?thesis by simp
qed

subsection \<open>The collections of a passed revalidation\<close>

lemma revalidate_steps_ConsD:
  assumes "revalidate_steps w st (k # keys) acc = Passed final"
  shows "\<exists>fs. rebuilt_forms w st k = Inr fs \<and> list_all (is_valid w) fs
           \<and> revalidate_steps w st keys (AList.update k fs acc) = Passed final"
  using assms
  by (auto simp: rebuilt_forms_def validate_forms_Inr split: sum.splits)




lemma set_update_subset: "set (AList.update k v al) \<subseteq> insert (k, v) (set al)"
  by (induction al) auto

lemma revalidate_steps_presentable:
  "revalidate_steps w st keys acc = Passed final \<Longrightarrow> \<forall>coll\<in>snd ` set acc. presentable coll
     \<Longrightarrow> \<forall>coll\<in>snd ` set final. presentable coll"
proof (induction keys arbitrary: acc)
  case Nil
  then show ?case by simp
next
  case (Cons k keys)
  from revalidate_steps_ConsD [OF Cons.prems(1)] obtain fs where
    fs: "rebuilt_forms w st k = Inr fs"
    and rec: "revalidate_steps w st keys (AList.update k fs acc) = Passed final" by blast
  from fs have "presentable fs"
    unfolding rebuilt_forms_def by (rule get_forms_presentable)
  with Cons.prems(2) have "\<forall>coll\<in>snd ` set (AList.update k fs acc). presentable coll"
    using set_update_subset [of k fs acc] by fastforce
  with rec show ?case by (rule Cons.IH)
qed

subsection \<open>The results built from the collections\<close>


lemma group_by_tag_total:
  "list_all (\<lambda>f. fo_tag f \<noteq> None) fs \<Longrightarrow> \<exists>d. group_by_tag fs acc = Inr d"
  by (induction fs arbitrary: acc) auto


lemma collect_results_total:
  "\<forall>coll\<in>snd ` set final. presentable coll \<Longrightarrow> \<exists>rf. collect_results final acc = Inr rf"
proof (induction final arbitrary: acc)
  case Nil
  then show ?case by simp
next
  case (Cons item final)
  obtain k coll where item: "item = (k, coll)" by (cases item)
  from Cons.prems have rest: "\<forall>coll\<in>snd ` set final. presentable coll"
    and coll: "presentable coll"
    by (auto simp: item)
  show ?case
  proof (cases coll)
    case Nil
    with Cons.IH [OF rest] show ?thesis by (simp add: item)
  next
    case outer: (Cons f fs)
    show ?thesis
    proof (cases fs)
      case Nil
      with outer Cons.IH [OF rest] show ?thesis by (simp add: item)
    next
      case (Cons g gs)
      with outer coll have "list_all (\<lambda>f. fo_tag f \<noteq> None) coll"
        by (simp add: presentable_def)
      from group_by_tag_total [OF this] obtain d where "group_by_tag coll [] = Inr d"
        by blast
      with outer Cons Cons.IH [OF rest] show ?thesis by (simp add: item)
    qed
  qed
qed




lemma those_map_total:
  "\<forall>x\<in>set xs. f x \<noteq> None \<Longrightarrow> those (map f xs) = Some (map (\<lambda>x. the (f x)) xs)"
  by (induction xs) auto

lemma ordered_results_total:
  "\<exists>form_list. ordered_results rf = Some form_list
      \<and> (\<forall>k v. map_of rf k = Some v \<longrightarrow> v \<in> set form_list)"
proof -
  let ?keys = "sort (map fst rf)"
  have keys: "set ?keys = fst ` set rf" by simp
  then have "\<forall>k\<in>set ?keys. map_of rf k \<noteq> None"
    by (simp add: map_of_eq_None_iff)
  from those_map_total [OF this]
  have eq: "ordered_results rf = Some (map (\<lambda>k. the (map_of rf k)) ?keys)"
    by (simp add: ordered_results_def)
  have "v \<in> set (map (\<lambda>k. the (map_of rf k)) ?keys)" if "map_of rf k = Some v" for k v
  proof -
    from that have "k \<in> set ?keys"
      unfolding keys by (metis map_of_eq_None_iff option.distinct(1))
    with that show ?thesis by force
  qed
  with eq show ?thesis by blast
qed

lemma build_results_total:
  assumes "\<forall>coll\<in>snd ` set final. presentable coll"
  shows "\<exists>form_list rf. build_results final = Inr (form_list, rf)
           \<and> collect_results final [] = Inr rf
           \<and> (\<forall>k v. map_of rf k = Some v \<longrightarrow> v \<in> set form_list)"
proof -
  from collect_results_total [OF assms] obtain rf where rf: "collect_results final [] = Inr rf"
    by blast
  from ordered_results_total [of rf] obtain form_list where
    "ordered_results rf = Some form_list" "\<forall>k v. map_of rf k = Some v \<longrightarrow> v \<in> set form_list"
    by blast
  with rf show ?thesis by (simp add: build_results_def)
qed

lemma revalidated_build_results:
  assumes "revalidate_steps w st keys [] = Passed final"
  shows "\<exists>form_list rf. build_results final = Inr (form_list, rf)
           \<and> collect_results final [] = Inr rf
           \<and> (\<forall>k v. map_of rf k = Some v \<longrightarrow> v \<in> set form_list)"
proof -
  have "\<forall>coll\<in>snd ` set final. presentable coll"
    by (rule revalidate_steps_presentable [OF assms]) simp
  then show ?thesis by (rule build_results_total)
qed





section \<open>The terminal callback and the reset\<close>

text \<open>
  C4, as amended. When every step revalidates, building the results raises nothing and
  \<open>done\<close> is called once. If \<open>done\<close> returns, \<open>render_done\<close> resets the storage and then returns
  the response of \<open>done\<close>. If \<open>done\<close> raises, the exception leaves \<open>render_done\<close> at the call:
  the reset of the next line is not reached and the storage is as it was.
\<close>

theorem reset_follows_returned_callback:
  assumes "revalidate_steps w (wd_storage wd) (steps_all w (wd_storage wd)) [] = Passed final_forms"
  shows "(\<exists>form_list result_forms. build_results final_forms = Inr (form_list, result_forms))
       \<and> (\<forall>form_list result_forms. build_results final_forms = Inr (form_list, result_forms) \<longrightarrow>
            (\<forall>done_response. w_done w form_list result_forms = Inr done_response \<longrightarrow>
               render_done_base w wd
                 = (Inr done_response,
                    wd\<lparr> wd_storage := reset (wd_storage wd),
                        wd_done_calls := wd_done_calls wd @ [(form_list, result_forms)] \<rparr>))
          \<and> (\<forall>e. w_done w form_list result_forms = Inl e \<longrightarrow>
               render_done_base w wd
                 = (Inl e, wd\<lparr> wd_done_calls := wd_done_calls wd @ [(form_list, result_forms)] \<rparr>)))"
proof -
  from revalidated_build_results [OF assms]
  have total: "\<exists>form_list result_forms. build_results final_forms = Inr (form_list, result_forms)"
    by blast
  have "render_done_base w wd = call_done w form_list result_forms wd"
    if "build_results final_forms = Inr (form_list, result_forms)" for form_list result_forms
    using assms that by (simp add: render_done_base_def)
  then show ?thesis
    using total by (auto simp: call_done_def)
qed

theorem reset_follows_returned_callback_witness:
  "revalidate_steps (demo_wizard False ba_steps done_ok) (wd_storage both_stored)
       (steps_all (demo_wizard False ba_steps done_ok) (wd_storage both_stored)) []
     = Passed [(''b'', [name_form ''b'' (Some [(''b-name'', ''Bob'')])]),
               (''a'', [name_form ''a'' (Some [(''a-name'', ''Ann'')])])]
   \<and> build_results [(''b'', [name_form ''b'' (Some [(''b-name'', ''Bob'')])]),
                     (''a'', [name_form ''a'' (Some [(''a-name'', ''Ann'')])])]
     = Inr ([Single (name_form ''a'' (Some [(''a-name'', ''Ann'')])),
             Single (name_form ''b'' (Some [(''b-name'', ''Bob'')]))],
            [(''b'', Single (name_form ''b'' (Some [(''b-name'', ''Bob'')]))),
             (''a'', Single (name_form ''a'' (Some [(''a-name'', ''Ann'')])))])
   \<and> w_done (demo_wizard False ba_steps done_ok)
        [Single (name_form ''a'' (Some [(''a-name'', ''Ann'')])),
         Single (name_form ''b'' (Some [(''b-name'', ''Bob'')]))]
        [(''b'', Single (name_form ''b'' (Some [(''b-name'', ''Bob'')]))),
         (''a'', Single (name_form ''a'' (Some [(''a-name'', ''Ann'')])))]
     = Inr (DoneResponse ''thanks'')
   \<and> wd_storage (snd (render_done_base (demo_wizard False ba_steps done_ok) both_stored))
     = \<lparr> current_step = None, step_data = [], step_files = [], extra_data = [] \<rparr>
   \<and> w_done (demo_wizard False ba_steps done_raises)
        [Single (name_form ''a'' (Some [(''a-name'', ''Ann'')])),
         Single (name_form ''b'' (Some [(''b-name'', ''Bob'')]))]
        [(''b'', Single (name_form ''b'' (Some [(''b-name'', ''Bob'')]))),
         (''a'', Single (name_form ''a'' (Some [(''a-name'', ''Ann'')])))]
     = Inl (CallbackError ''mail server down'')
   \<and> wd_storage (snd (render_done_base (demo_wizard False ba_steps done_raises) both_stored))
     = wd_storage both_stored"
proof -
  let ?ok = "demo_wizard False ba_steps done_ok"
  let ?bad = "demo_wizard False ba_steps done_raises"
  let ?final = "[(''b'', [name_form ''b'' (Some [(''b-name'', ''Bob'')])]),
                 (''a'', [name_form ''a'' (Some [(''a-name'', ''Ann'')])])]"
  let ?fl = "[Single (name_form ''a'' (Some [(''a-name'', ''Ann'')])),
              Single (name_form ''b'' (Some [(''b-name'', ''Bob'')]))]"
  let ?rf = "[(''b'', Single (name_form ''b'' (Some [(''b-name'', ''Bob'')]))),
              (''a'', Single (name_form ''a'' (Some [(''a-name'', ''Ann'')])))]"
  have h1: "revalidate_steps ?ok (wd_storage both_stored) (steps_all ?ok (wd_storage both_stored)) []
              = Passed ?final"
    by code_simp
  have h1': "revalidate_steps ?bad (wd_storage both_stored)
               (steps_all ?bad (wd_storage both_stored)) [] = Passed ?final"
    by code_simp
  have h2: "build_results ?final = Inr (?fl, ?rf)"
    by code_simp
  have h3: "w_done ?ok ?fl ?rf = Inr (DoneResponse ''thanks'')"
    by code_simp
  have h3': "w_done ?bad ?fl ?rf = Inl (CallbackError ''mail server down'')"
    by code_simp
  from reset_follows_returned_callback [OF h1] h2 h3
  have "render_done_base ?ok both_stored
          = (Inr (DoneResponse ''thanks''),
             both_stored\<lparr> wd_storage := reset (wd_storage both_stored),
                          wd_done_calls := wd_done_calls both_stored @ [(?fl, ?rf)] \<rparr>)"
    by blast
  then have c1: "wd_storage (snd (render_done_base ?ok both_stored))
          = \<lparr> current_step = None, step_data = [], step_files = [], extra_data = [] \<rparr>"
    by (simp add: reset_def)
  from reset_follows_returned_callback [OF h1'] h2 h3'
  have "render_done_base ?bad both_stored
          = (Inl (CallbackError ''mail server down''),
             both_stored\<lparr> wd_done_calls := wd_done_calls both_stored @ [(?fl, ?rf)] \<rparr>)"
    by blast
  then have c2: "wd_storage (snd (render_done_base ?bad both_stored)) = wd_storage both_stored"
    by simp
  show ?thesis by (intro conjI h1 h2 h3 c1 h3' c2)
qed

text \<open>
  C4 as stated fails: with a callback that raises, \<open>render_done\<close> raises the callback's
  exception and the storage still holds the current step and the data of both steps.
\<close>

theorem callback_exception_skips_reset:
  "render_done_base (demo_wizard False ba_steps done_raises) both_stored
     = (Inl (CallbackError ''mail server down''),
        \<lparr> wd_storage = \<lparr> current_step = Some ''a'',
                          step_data = [(Some ''b'', [(''b-name'', ''Bob'')]),
                                       (Some ''a'', [(''a-name'', ''Ann'')])],
                          step_files = [], extra_data = [] \<rparr>,
          wd_done_calls =
            [([Single (name_form ''a'' (Some [(''a-name'', ''Ann'')])),
               Single (name_form ''b'' (Some [(''b-name'', ''Bob'')]))],
              [(''b'', Single (name_form ''b'' (Some [(''b-name'', ''Bob'')]))),
               (''a'', Single (name_form ''a'' (Some [(''a-name'', ''Ann'')])))])] \<rparr>)
   \<and> wd_storage (snd (render_done_base (demo_wizard False ba_steps done_raises) both_stored))
       \<noteq> reset (wd_storage both_stored)"
  by code_simp

section \<open>Prefixes of the forms of a grouped step\<close>

text \<open>
  C7, as amended. Every form of a grouped step gets the prefix that the hook
  \<open>get_form_prefix\<close> gives for the step name and the form's class. The tag is no argument of
  the hook, so two tags of one step with the same class always get the same prefix.
\<close>

theorem grouped_prefix_ignores_tag:
  assumes "get_forms w st (Some step) data files = Inr forms"
    and "map_of (w_form_list w) step = Some (Group form_mapping)"
  shows "map fo_prefix forms
           = map (\<lambda>(tag, form_class). w_get_form_prefix w step form_class) form_mapping
       \<and> map fo_tag forms = map (\<lambda>(tag, form_class). Some tag) form_mapping
       \<and> (\<forall>i j. i < length forms \<longrightarrow> j < length forms
             \<longrightarrow> snd (form_mapping ! i) = snd (form_mapping ! j)
             \<longrightarrow> fo_prefix (forms ! i) = fo_prefix (forms ! j))"
proof -
  from get_forms_Group [OF assms] have
    prefixes: "map fo_prefix forms
           = map (\<lambda>(tag, form_class). w_get_form_prefix w step form_class) form_mapping"
    and tags: "map fo_tag forms = map (\<lambda>(tag, form_class). Some tag) form_mapping"
    by simp_all
  from tags have len: "length forms = length form_mapping"
    by (metis length_map)
  have at: "fo_prefix (forms ! i) = w_get_form_prefix w step (snd (form_mapping ! i))"
    if "i < length forms" for i
  proof -
    from that have "fo_prefix (forms ! i) = map fo_prefix forms ! i" by simp
    also have "\<dots> = w_get_form_prefix w step (snd (form_mapping ! i))"
      unfolding prefixes using that len by (simp add: case_prod_unfold)
    finally show ?thesis .
  qed
  from prefixes tags at show ?thesis by simp
qed

theorem grouped_prefix_ignores_tag_witness:
  "get_forms (demo_wizard False two_tag_steps done_ok) (wd_storage contact_stored)
       (Some ''contact'') None None
     = Inr [tagged_form ''contact'' (Some ''a'') None, tagged_form ''contact'' (Some ''b'') None]
   \<and> map_of (w_form_list (demo_wizard False two_tag_steps done_ok)) ''contact''
       = Some (Group [(''a'', NameForm), (''b'', NameForm)])
   \<and> map fo_prefix [tagged_form ''contact'' (Some ''a'') None,
                     tagged_form ''contact'' (Some ''b'') None]
       = [''contact'', ''contact'']"
proof -
  let ?w = "demo_wizard False two_tag_steps done_ok"
  have h1: "get_forms ?w (wd_storage contact_stored) (Some ''contact'') None None
     = Inr [tagged_form ''contact'' (Some ''a'') None, tagged_form ''contact'' (Some ''b'') None]"
    by code_simp
  have h2: "map_of (w_form_list ?w) ''contact'' = Some (Group [(''a'', NameForm), (''b'', NameForm)])"
    by code_simp
  have h3: "w_get_form_prefix ?w ''contact'' NameForm = ''contact''"
    by code_simp
  from grouped_prefix_ignores_tag [OF h1 h2] h3
  have "map fo_prefix [tagged_form ''contact'' (Some ''a'') None,
                       tagged_form ''contact'' (Some ''b'') None] = [''contact'', ''contact'']"
    by simp
  with h1 h2 show ?thesis by blast
qed

text \<open>
  C7 as stated fails: with the hook of the host framework, which returns the step name,
  the forms built for the tags \<open>a\<close> and \<open>b\<close> of the step \<open>contact\<close> both get the prefix
  \<open>contact\<close>.
\<close>

theorem sub_forms_share_prefix:
  "get_forms (demo_wizard False two_tag_steps done_ok) (wd_storage contact_stored)
       (Some ''contact'') None None
     = Inr [tagged_form ''contact'' (Some ''a'') None, tagged_form ''contact'' (Some ''b'') None]
   \<and> fo_prefix (tagged_form ''contact'' (Some ''a'') None) = ''contact''
   \<and> fo_prefix (tagged_form ''contact'' (Some ''b'') None) = ''contact''"
  by code_simp

section \<open>POST: the management form and invalid submissions\<close>

text \<open>
  C5. A POST without a goto directive whose management form is invalid raises
  \<open>ValidationError\<close> and leaves the storage and everything else as it was. When the
  management form is valid, the request goes on with the storage that the check of lines
  216-220 leaves: if the declared current step differs from the tracked one, the stored
  current step becomes the declared one exactly when the storage has a current step, and
  the storage is otherwise unchanged; if the two agree, nothing is written.
\<close>

theorem management_marker_check:
  assumes "goto_directive w rq (wd_storage wd) = None"
  shows "(rq_management rq = None \<longrightarrow> post w rq wd = (Inl ValidationError, wd))
       \<and> (\<forall>declared. rq_management rq = Some declared \<longrightarrow>
             post w rq wd
               = validate_and_proceed w rq
                   (wd\<lparr> wd_storage := sync_current_step w declared (wd_storage wd) \<rparr>)
           \<and> (Some declared \<noteq> steps_current w (wd_storage wd) \<longrightarrow>
                 (current_step (sync_current_step w declared (wd_storage wd)) = Some declared
                    \<longleftrightarrow> current_step (wd_storage wd) \<noteq> None)
               \<and> (current_step (wd_storage wd) \<noteq> None \<longrightarrow>
                     sync_current_step w declared (wd_storage wd)
                       = (wd_storage wd)\<lparr> current_step := Some declared \<rparr>)
               \<and> (current_step (wd_storage wd) = None \<longrightarrow>
                     sync_current_step w declared (wd_storage wd) = wd_storage wd))
           \<and> (Some declared = steps_current w (wd_storage wd) \<longrightarrow>
                 sync_current_step w declared (wd_storage wd) = wd_storage wd))"
  using assms by (auto simp: post_def sync_current_step_def)

theorem management_marker_check_witness:
  "goto_directive (demo_wizard False ab_steps done_ok) (marker_request None []) (wd_storage only_a_stored)
     = None
   \<and> rq_management (marker_request None []) = None
   \<and> post (demo_wizard False ab_steps done_ok) (marker_request None []) only_a_stored
       = (Inl ValidationError, only_a_stored)
   \<and> goto_directive (demo_wizard False ab_steps done_ok) (marker_request (Some ''a'') [])
        (wd_storage only_a_stored) = None
   \<and> rq_management (marker_request (Some ''a'') []) = Some ''a''
   \<and> Some ''a'' \<noteq> steps_current (demo_wizard False ab_steps done_ok) (wd_storage only_a_stored)
   \<and> current_step (wd_storage only_a_stored) \<noteq> None
   \<and> sync_current_step (demo_wizard False ab_steps done_ok) ''a'' (wd_storage only_a_stored)
       = (wd_storage only_a_stored)\<lparr> current_step := Some ''a'' \<rparr>"
proof -
  let ?w = "demo_wizard False ab_steps done_ok"
  have g1: "goto_directive ?w (marker_request None []) (wd_storage only_a_stored) = None"
    by code_simp
  have m1: "rq_management (marker_request None []) = None"
    by (simp add: marker_request_def)
  from management_marker_check [OF g1] m1
  have c1: "post ?w (marker_request None []) only_a_stored = (Inl ValidationError, only_a_stored)"
    by blast
  have g2: "goto_directive ?w (marker_request (Some ''a'') []) (wd_storage only_a_stored) = None"
    by code_simp
  have m2: "rq_management (marker_request (Some ''a'') []) = Some ''a''"
    by (simp add: marker_request_def)
  have d2: "Some ''a'' \<noteq> steps_current ?w (wd_storage only_a_stored)"
    by code_simp
  have n2: "current_step (wd_storage only_a_stored) \<noteq> None"
    by code_simp
  from management_marker_check [OF g2] m2 d2 n2
  have c2: "sync_current_step ?w ''a'' (wd_storage only_a_stored)
       = (wd_storage only_a_stored)\<lparr> current_step := Some ''a'' \<rparr>"
    by blast
  show ?thesis by (intro conjI g1 m1 c1 g2 m2 d2 n2 c2)
qed

text \<open>
  C6, as amended. On a POST without a goto directive and with a valid management form,
  when a form of the current step is invalid, nothing is written after the check of the
  management form: the stored current step is the declared one when it differs from the
  tracked one and the storage has a current step, and the one of before the request
  otherwise; the data, the files and the extra data of every step are those of before the
  request, and \<open>done\<close> is not called. The base wizard answers with the rendering of the forms
  built from the request for that current step.
\<close>

theorem invalid_submission_rerenders:
  assumes "goto_directive w rq (wd_storage wd) = None"
    and "rq_management rq = Some declared"
    and "get_forms w (sync_current_step w declared (wd_storage wd)) None
           (Some (rq_POST rq)) (Some (rq_FILES rq)) = Inr forms"
    and "\<not> list_all (is_valid w) forms"
  shows "snd (post w rq wd)
           = wd\<lparr> wd_storage := (wd_storage wd)
                \<lparr> current_step :=
                    (if Some declared \<noteq> steps_current w (wd_storage wd)
                        \<and> current_step (wd_storage wd) \<noteq> None
                     then Some declared else current_step (wd_storage wd)) \<rparr> \<rparr>
       \<and> step_data (wd_storage (snd (post w rq wd))) = step_data (wd_storage wd)
       \<and> step_files (wd_storage (snd (post w rq wd))) = step_files (wd_storage wd)
       \<and> extra_data (wd_storage (snd (post w rq wd))) = extra_data (wd_storage wd)
       \<and> wd_done_calls (snd (post w rq wd)) = wd_done_calls wd
       \<and> (\<not> w_named w \<longrightarrow>
             fst (post w rq wd)
               = Inr (Rendered (FormList forms)
                        (steps_current w (wd_storage (snd (post w rq wd))))
                        (extra_data (wd_storage wd))))"
proof -
  let ?st = "sync_current_step w declared (wd_storage wd)"
  have p: "post w rq wd = (render w (FormList forms) ?st, wd\<lparr> wd_storage := ?st \<rparr>)"
    using assms by (simp add: post_def validate_and_proceed_def Let_def)
  have nonempty: "forms \<noteq> []"
    using assms(4) by auto
  have st: "?st = (wd_storage wd)
                \<lparr> current_step :=
                    (if Some declared \<noteq> steps_current w (wd_storage wd)
                        \<and> current_step (wd_storage wd) \<noteq> None
                     then Some declared else current_step (wd_storage wd)) \<rparr>"
    by (simp add: sync_current_step_def)
  have world: "snd (post w rq wd)
           = wd\<lparr> wd_storage := (wd_storage wd)
                \<lparr> current_step :=
                    (if Some declared \<noteq> steps_current w (wd_storage wd)
                        \<and> current_step (wd_storage wd) \<noteq> None
                     then Some declared else current_step (wd_storage wd)) \<rparr> \<rparr>"
    unfolding p using st by simp
  have response: "fst (post w rq wd)
               = Inr (Rendered (FormList forms)
                        (steps_current w (wd_storage (snd (post w rq wd))))
                        (extra_data (wd_storage wd)))" if "\<not> w_named w"
    unfolding p using that nonempty
    by (simp add: render_def get_context_data_def sync_current_step_def)
  have frame: "step_data (wd_storage (snd (post w rq wd))) = step_data (wd_storage wd)"
      "step_files (wd_storage (snd (post w rq wd))) = step_files (wd_storage wd)"
      "extra_data (wd_storage (snd (post w rq wd))) = extra_data (wd_storage wd)"
      "wd_done_calls (snd (post w rq wd)) = wd_done_calls wd"
    unfolding world by simp_all
  from world frame response show ?thesis by blast
qed

theorem invalid_submission_rerenders_witness:
  "goto_directive (demo_wizard False ab_steps done_ok) a_posted_empty (wd_storage only_a_stored) = None
   \<and> rq_management a_posted_empty = Some ''a''
   \<and> get_forms (demo_wizard False ab_steps done_ok)
        (sync_current_step (demo_wizard False ab_steps done_ok) ''a'' (wd_storage only_a_stored))
        None (Some (rq_POST a_posted_empty)) (Some (rq_FILES a_posted_empty))
       = Inr [(name_form ''a'' (Some [(''a-name'', [])]))\<lparr> fo_files := Some [] \<rparr>]
   \<and> \<not> list_all (is_valid (demo_wizard False ab_steps done_ok))
          [(name_form ''a'' (Some [(''a-name'', [])]))\<lparr> fo_files := Some [] \<rparr>]
   \<and> post (demo_wizard False ab_steps done_ok) a_posted_empty only_a_stored
       = (Inr (Rendered (FormList [(name_form ''a'' (Some [(''a-name'', [])]))\<lparr> fo_files := Some [] \<rparr>])
                (Some ''a'') []),
          \<lparr> wd_storage = \<lparr> current_step = Some ''a'',
                            step_data = [(Some ''a'', [(''a-name'', ''Ann'')])],
                            step_files = [], extra_data = [] \<rparr>,
            wd_done_calls = [] \<rparr>)"
proof -
  let ?w = "demo_wizard False ab_steps done_ok"
  let ?forms = "[(name_form ''a'' (Some [(''a-name'', [])]))\<lparr> fo_files := Some [] \<rparr>]"
  let ?after = "\<lparr> wd_storage = \<lparr> current_step = Some ''a'',
                            step_data = [(Some ''a'', [(''a-name'', ''Ann'')])],
                            step_files = [], extra_data = [] \<rparr>,
            wd_done_calls = [] \<rparr>"
  have h1: "goto_directive ?w a_posted_empty (wd_storage only_a_stored) = None"
    by code_simp
  have h2: "rq_management a_posted_empty = Some ''a''"
    by code_simp
  have h3: "get_forms ?w (sync_current_step ?w ''a'' (wd_storage only_a_stored)) None
        (Some (rq_POST a_posted_empty)) (Some (rq_FILES a_posted_empty)) = Inr ?forms"
    by code_simp
  have h4: "\<not> list_all (is_valid ?w) ?forms"
    by code_simp
  have n: "\<not> w_named ?w"
    by code_simp
  have s: "only_a_stored\<lparr> wd_storage := (wd_storage only_a_stored)
                \<lparr> current_step :=
                    (if Some ''a'' \<noteq> steps_current ?w (wd_storage only_a_stored)
                        \<and> current_step (wd_storage only_a_stored) \<noteq> None
                     then Some ''a'' else current_step (wd_storage only_a_stored)) \<rparr> \<rparr> = ?after"
    by code_simp
  have e: "extra_data (wd_storage only_a_stored) = []"
    by code_simp
  have c: "steps_current ?w (wd_storage ?after) = Some ''a''"
    by code_simp
  from invalid_submission_rerenders [OF h1 h2 h3 h4] n
  have A: "snd (post ?w a_posted_empty only_a_stored)
          = only_a_stored\<lparr> wd_storage := (wd_storage only_a_stored)
                \<lparr> current_step :=
                    (if Some ''a'' \<noteq> steps_current ?w (wd_storage only_a_stored)
                        \<and> current_step (wd_storage only_a_stored) \<noteq> None
                     then Some ''a'' else current_step (wd_storage only_a_stored)) \<rparr> \<rparr>"
    and B: "fst (post ?w a_posted_empty only_a_stored)
          = Inr (Rendered (FormList ?forms)
                   (steps_current ?w (wd_storage (snd (post ?w a_posted_empty only_a_stored))))
                   (extra_data (wd_storage only_a_stored)))"
    by blast+
  have A': "snd (post ?w a_posted_empty only_a_stored) = ?after"
    using A s by (rule trans)
  have B': "fst (post ?w a_posted_empty only_a_stored)
              = Inr (Rendered (FormList ?forms) (Some ''a'') [])"
    by (simp only: B A' c e)
  have r: "post ?w a_posted_empty only_a_stored
                  = (Inr (Rendered (FormList ?forms) (Some ''a'') []), ?after)"
    by (rule prod_eqI) (simp_all only: fst_conv snd_conv A' B')
  show ?thesis by (intro conjI h1 h2 h3 h4 r)
qed

text \<open>
  C6 as stated fails where it says that the stored current step is left unchanged: with
  the stored current step \<open>b\<close> and a request that declares \<open>a\<close> and submits an empty name,
  the forms of \<open>a\<close> are rendered and the stored current step is now \<open>a\<close>. It also fails for
  the named-URL wizard, which inherits \<open>post\<close>: there the rendering raises \<open>TypeError\<close> (see
  \<open>get_context_data\<close>).
\<close>

theorem invalid_submission_changes_current_step:
  "current_step (wd_storage only_a_stored) = Some ''b''
   \<and> post (demo_wizard False ab_steps done_ok) a_posted_empty only_a_stored
       = (Inr (Rendered (FormList [(name_form ''a'' (Some [(''a-name'', [])]))\<lparr> fo_files := Some [] \<rparr>])
                (Some ''a'') []),
          \<lparr> wd_storage = \<lparr> current_step = Some ''a'',
                            step_data = [(Some ''a'', [(''a-name'', ''Ann'')])],
                            step_files = [], extra_data = [] \<rparr>,
            wd_done_calls = [] \<rparr>)
   \<and> current_step (wd_storage (snd (post (demo_wizard False ab_steps done_ok) a_posted_empty
        only_a_stored))) \<noteq> current_step (wd_storage only_a_stored)
   \<and> post (demo_wizard True ab_steps done_ok) a_posted_empty a_tracked = (Inl TypeError, a_tracked)"
  by code_simp

section \<open>The done address of the named-URL wizard\<close>

lemma build_group_bound:
  assumes "build_group w step data files ini ins items acc = Inr fs"
    and "\<forall>f\<in>set acc. fo_data f = data \<and> fo_files f = files"
  shows "\<forall>f\<in>set fs. fo_data f = data \<and> fo_files f = files"
  using assms
proof (induction items arbitrary: acc)
  case Nil
  then show ?case by simp
next
  case (Cons item items)
  obtain form_name form_class where item: "item = (form_name, form_class)"
    by (cases item)
  from Cons.prems(1) obtain form where
      rec: "build_group w step data files ini ins items (acc @ [form]) = Inr fs"
    and form: "fo_data form = data" "fo_files form = files"
    by (auto simp: item Let_def split: sum.splits)
  from Cons.prems(2) form have "\<forall>f\<in>set (acc @ [form]). fo_data f = data \<and> fo_files f = files"
    by simp
  with rec show ?case by (rule Cons.IH)
qed

lemma get_forms_bound:
  assumes "get_forms w st step data files = Inr fs" and "f \<in> set fs"
  shows "fo_data f = data \<and> fo_files f = files"
proof -
  from assms(1) obtain s where s: "(case step of None \<Rightarrow> steps_current w st | Some s \<Rightarrow> Some s) = Some s"
    by (auto simp: get_forms_def split: option.splits)
  from assms(1) s obtain struct where struct: "map_of (w_form_list w) s = Some struct"
    by (auto simp: get_forms_def split: option.splits)
  show ?thesis
  proof (cases struct)
    case (Cls c)
    with assms(1) s struct have "fs = build_single w s data files c"
      by (simp add: get_forms_def)
    with assms(2) show ?thesis
      by (auto simp: build_single_def Let_def split: if_splits)
  next
    case (Group items)
    with assms(1) s struct have "build_group w s data files (w_get_form_initial w s)
        (w_get_form_instance w s) items [] = Inr fs"
      by (simp add: get_forms_def)
    from build_group_bound [OF this] assms(2) show ?thesis by simp
  qed
qed

text \<open>
  With a last step of one form class, for which the inherited \<open>get_form\<close> returns a form,
  a GET for the done address is finalize on the storage as it is. With the two steps \<open>a\<close>
  and \<open>b\<close>, where \<open>a\<close> revalidates and nothing is stored for \<open>b\<close>, the forms of \<open>b\<close> are unbound,
  finalize fails at \<open>b\<close>, the stored current step becomes \<open>b\<close> and the response is the
  redirect to the address of \<open>b\<close>.
\<close>

lemma done_address_scenario:
  assumes "w_named w"
    and "rq_step rq = Some (w_done_step_name w)"
    and "w_get_form w (wd_storage wd) (steps_last w (wd_storage wd))
           (get_step_data (wd_storage wd) (steps_last w (wd_storage wd)))
           (get_step_files (wd_storage wd) (steps_last w (wd_storage wd))) = Inr form"
    and steps: "steps_all w (wd_storage wd) = [a, b]"
    and a: "step_revalidates w (wd_storage wd) a"
    and no_data: "get_step_data (wd_storage wd) (Some b) = None"
    and no_files: "get_step_files (wd_storage wd) (Some b) = None"
    and built: "get_forms w (wd_storage wd) (Some b) None None = Inr (f # fs)"
  shows "named_get w rq wd
           = (Inr (Redirect (get_step_url w (Some b))), set_current_step (Some b) wd)"
proof -
  have run: "named_get w rq wd = render_done_base w wd"
    using assms(1-3) by (simp add: named_get_def render_done_def Let_def)
  have rebuilt: "rebuilt_forms w (wd_storage wd) b = Inr (f # fs)"
    unfolding rebuilt_forms_def no_data no_files by (rule built)
  from get_forms_bound [OF built, of f] have "\<not> is_bound f"
    by (simp add: is_bound_def)
  then have first: "find (\<lambda>f. \<not> is_valid w f) (f # fs) = Some f"
    by (simp add: is_valid_def)
  have "revalidate_steps w (wd_storage wd) ([a] @ b # []) [] = Failed b f"
    by (rule revalidate_steps_first_failure [OF _ rebuilt first]) (simp add: a)
  then show ?thesis
    unfolding run using steps assms(1)
    by (simp add: render_done_base_def render_revalidation_failure_def)
qed

text \<open>
  C8. The claim holds for the steps \<open>a\<close> and \<open>b\<close> of one form class each, as the last
  equation below shows. The code misses the grouped last step, which the docstring of
  \<open>get_initkwargs\<close> allows: before \<open>render_done\<close>, line 413 calls the inherited \<open>get_form\<close>
  (singular) for the last step, where every other path of the module calls \<open>get_forms\<close>, and
  \<open>get_form\<close> raises \<open>TypeError\<close> on the dict of a grouped step. With the step \<open>a\<close> followed by
  the grouped step \<open>contact\<close>, a GET for the done address raises \<open>TypeError\<close> and finalize does
  not run, whether only \<open>a\<close> is stored (finalize itself, \<open>render_done\<close>, would redirect to
  \<open>contact\<close>) or both steps are stored and valid (finalize itself would call \<open>done\<close>).
\<close>

theorem done_address_raises_for_grouped_last_step:
  "steps_last (demo_wizard True a_contact_steps done_ok) (wd_storage only_a_stored)
     = Some ''contact''
   \<and> named_get (demo_wizard True a_contact_steps done_ok) done_request only_a_stored
     = (Inl TypeError, only_a_stored)
   \<and> render_done (demo_wizard True a_contact_steps done_ok) done_request only_a_stored
     = (Inr (Redirect ''/wizard/contact''),
        \<lparr> wd_storage = \<lparr> current_step = Some ''contact'',
                          step_data = [(Some ''a'', [(''a-name'', ''Ann'')])],
                          step_files = [], extra_data = [] \<rparr>,
          wd_done_calls = [] \<rparr>)
   \<and> named_get (demo_wizard True a_contact_steps done_ok) done_request a_and_contact_stored
     = (Inl TypeError, a_and_contact_stored)
   \<and> fst (render_done (demo_wizard True a_contact_steps done_ok) done_request
             a_and_contact_stored)
     = Inr (DoneResponse ''thanks'')
   \<and> named_get (demo_wizard True ab_steps done_ok) done_request only_a_stored
     = (Inr (Redirect ''/wizard/b''),
        \<lparr> wd_storage = \<lparr> current_step = Some ''b'',
                          step_data = [(Some ''a'', [(''a-name'', ''Ann'')])],
                          step_files = [], extra_data = [] \<rparr>,
          wd_done_calls = [] \<rparr>)"
  by code_simp

end
